theory Spec2Isabelle
  imports Complex_Main
begin

section \<open>Values of the host language\<close>

text \<open>
  A thrown JavaScript error value, identified by its message. Errors raised by the
  transport, by \<^verbatim>\<open>JSON.parse\<close> or by \<^verbatim>\<open>xml2js\<close> arrive as values of this type; the
  plugin itself only constructs \<^verbatim>\<open>new Error (message)\<close>.
\<close>

datatype error = Error string

text \<open>
  A \<^verbatim>\<open>Date\<close>: its time value in milliseconds since the epoch, or \<open>None\<close> for an
  Invalid Date (time value NaN). Every comparison with NaN is false.
\<close>

type_synonym date = "int option"

definition date_le :: "date \<Rightarrow> date \<Rightarrow> bool" where
  "date_le a b = (case a of None \<Rightarrow> False | Some x \<Rightarrow> (case b of None \<Rightarrow> False | Some y \<Rightarrow> x \<le> y))"

definition date_gt :: "date \<Rightarrow> date \<Rightarrow> bool" where
  "date_gt a b = (case a of None \<Rightarrow> False | Some x \<Rightarrow> (case b of None \<Rightarrow> False | Some y \<Rightarrow> y < x))"

text \<open>\<^verbatim>\<open>String(n)\<close> for an integral number, as a template literal renders it.\<close>

fun digitsOf :: "nat \<Rightarrow> string" where
  "digitsOf n = (if n < 10 then [''0123456789'' ! n]
                 else digitsOf (n div 10) @ [''0123456789'' ! (n mod 10)])"

declare digitsOf.simps [simp del]

definition numberToString :: "int \<Rightarrow> string" where
  "numberToString i = (if i < 0 then CHR ''-'' # digitsOf (nat (- i)) else digitsOf (nat i))"

definition isDigit :: "char \<Rightarrow> bool" where
  "isDigit c = (c \<in> set ''0123456789'')"

text \<open>\<^verbatim>\<open>s.padStart (2, '0')\<close>.\<close>

definition padStart2 :: "string \<Rightarrow> string" where
  "padStart2 s = replicate (2 - length s) CHR ''0'' @ s"

text \<open>The \<^verbatim>\<open>%\<close> operator on integers: the remainder takes the sign of the dividend.\<close>

definition jsRem :: "int \<Rightarrow> int \<Rightarrow> int" where
  "jsRem a b = sgn a * (\<bar>a\<bar> mod \<bar>b\<bar>)"

section \<open>HikvisionDoorbellAPI (doorbell-api.ts): events and constants\<close>

datatype HikvisionDoorbellEvent =
    Motion
  | CaseTamperAlert
  | TalkInvite
  | TalkHangup
  | Unlock
  | Lock
  | DoorOpened
  | DoorClosed
  | DoorAbnormalOpened
  | AccessDenied

record AcsEventInfo =
  major :: int
  minor :: int
  time :: string
  remoteHostAddr :: string
  mask :: string

definition maxEventAgeSeconds :: int where
  "maxEventAgeSeconds = 30"

definition EventCodeMap :: "string \<rightharpoonup> HikvisionDoorbellEvent" where
  "EventCodeMap = map_of
    [(''5,25'', DoorOpened),
     (''5,26'', DoorClosed),
     (''5,92'', DoorAbnormalOpened),
     (''1,3'', Motion),
     (''1,2'', CaseTamperAlert),
     (''5,214'', Unlock),
     (''5,9'', AccessDenied),
     (''5,22'', Lock)]"

text \<open>
  What a call of the API does to the outside, in order: \<^verbatim>\<open>emitEvent ('event', kind,
  channel, flag)\<close> towards the subscribers, and \<^verbatim>\<open>startCallStatusPolling()\<close>.
\<close>

datatype effect =
    Emit HikvisionDoorbellEvent string bool
  | StartCallStatusPolling

section \<open>Timezone resolver\<close>

text \<open>
  The tail \<^verbatim>\<open>:(\d{2}):(\d{2})\<close> of the timezone pattern, matched at the head of the
  string; the result is the minutes group.
\<close>

definition matchTzTail :: "string \<Rightarrow> string option" where
  "matchTzTail s =
     (case s of
        c1 # m1 # m2 # c2 # s1 # s2 # _ \<Rightarrow>
          if c1 = CHR '':'' \<and> isDigit m1 \<and> isDigit m2 \<and> c2 = CHR '':'' \<and> isDigit s1 \<and> isDigit s2
          then Some [m1, m2] else None
      | _ \<Rightarrow> None)"

text \<open>
  \<^verbatim>\<open>/CST([+-])(\d{1,2}):(\d{2}):(\d{2})/\<close> matched at the head of the string: the
  hours group is greedy, two digits are tried before one. The result is (sign, hours,
  minutes).
\<close>

definition matchTzHere :: "string \<Rightarrow> (char \<times> string \<times> string) option" where
  "matchTzHere s =
     (case s of
        c # s' # t # sg # h1 # rest \<Rightarrow>
          if c = CHR ''C'' \<and> s' = CHR ''S'' \<and> t = CHR ''T''
             \<and> (sg = CHR ''+'' \<or> sg = CHR ''-'') \<and> isDigit h1
          then
            (case (case rest of
                     h2 # rest2 \<Rightarrow>
                       if isDigit h2 then map_option (\<lambda>m. (sg, [h1, h2], m)) (matchTzTail rest2)
                       else None
                   | [] \<Rightarrow> None) of
               Some r \<Rightarrow> Some r
             | None \<Rightarrow> map_option (\<lambda>m. (sg, [h1], m)) (matchTzTail rest))
          else None
      | _ \<Rightarrow> None)"

text \<open>\<^verbatim>\<open>timezoneStr.match (...)\<close>: the pattern is not anchored, the leftmost match wins.\<close>

fun matchTz :: "string \<Rightarrow> (char \<times> string \<times> string) option" where
  "matchTz [] = matchTzHere []"
| "matchTz (c # cs) = (case matchTzHere (c # cs) of Some r \<Rightarrow> Some r | None \<Rightarrow> matchTz cs)"

text \<open>
  The \<^verbatim>\<open>try\<close> block of \<^verbatim>\<open>getDeviceTimezone\<close>. Its input is what the request and the
  XML parser deliver for \<^verbatim>\<open>parsedXml.Time?.timeZone?.[0]\<close>: \<open>Inl\<close> when either throws,
  \<open>Inr None\<close> when the element is absent.
\<close>

definition parseDeviceTimezone :: "error + string option \<Rightarrow> error + string" where
  "parseDeviceTimezone response =
     (case response of
        Inl e \<Rightarrow> Inl e
      | Inr None \<Rightarrow> Inl (Error ''No timezone found in response'')
      | Inr (Some timezoneStr) \<Rightarrow>
          if timezoneStr = [] then Inl (Error ''No timezone found in response'')
          else
            (case matchTz timezoneStr of
               None \<Rightarrow> Inl (Error (''Invalid timezone format: '' @ timezoneStr))
             | Some (sign, hours, minutes) \<Rightarrow>
                 let invertedSign = (if sign = CHR ''-'' then CHR ''+'' else CHR ''-'')
                 in Inr (invertedSign # padStart2 hours @ '':'' @ minutes)))"

text \<open>
  The \<^verbatim>\<open>catch\<close> block: the host's own offset, from \<^verbatim>\<open>new Date().getTimezoneOffset()\<close>
  (minutes, negative east of Greenwich).
\<close>

definition systemTimezone :: "int \<Rightarrow> string" where
  "systemTimezone systemOffset =
     (let offsetHours = \<bar>systemOffset div 60\<bar>;
          offsetMinutes = \<bar>jsRem systemOffset 60\<bar>;
          sign = (if systemOffset \<le> 0 then CHR ''+'' else CHR ''-'')
      in sign # padStart2 (numberToString offsetHours) @ '':'' @ padStart2 (numberToString offsetMinutes))"

text \<open>
  \<^verbatim>\<open>getDeviceTimezone\<close>: the value it returns, which is also the new
  \<^verbatim>\<open>this.deviceTimezone\<close>. It never throws.
\<close>

definition getDeviceTimezone :: "int \<Rightarrow> error + string option \<Rightarrow> string" where
  "getDeviceTimezone systemOffset response =
     (case parseDeviceTimezone response of
        Inr gmtOffset \<Rightarrow> gmtOffset
      | Inl e \<Rightarrow> systemTimezone systemOffset)"

section \<open>Event normalizer\<close>

text \<open>
  The age filter of both sources: \<^verbatim>\<open>ageInSeconds = (now.getTime() - eventTime.getTime())
  / 1000\<close> and \<^verbatim>\<open>ageInSeconds > maxEventAgeSeconds\<close>. The clock reading \<open>now\<close> is in
  milliseconds; for an Invalid Date the age is NaN and the comparison is false. The real
  quotient stands for the double: 30 is a double and the division rounds monotonically,
  so on whole milliseconds the comparison with 30 comes out the same.
\<close>

definition ageInSeconds :: "int \<Rightarrow> int \<Rightarrow> real" where
  "ageInSeconds now eventTime = real_of_int (now - eventTime) / 1000"

definition tooOld :: "int \<Rightarrow> date \<Rightarrow> bool" where
  "tooOld now eventTime =
     (case eventTime of
        None \<Rightarrow> False
      | Some t \<Rightarrow> ageInSeconds now t > real_of_int maxEventAgeSeconds)"

text \<open>
  \<^verbatim>\<open>convertDeviceTimeToUTC\<close>. The constructor \<^verbatim>\<open>new Date (string)\<close> is the host's, taken
  as the parameter \<open>newDate\<close>. With a timezone loaded the offset is appended to the device
  string; \<^verbatim>\<open>date.toISOString()\<close> in the debug line throws a RangeError on an Invalid Date,
  and the \<^verbatim>\<open>catch\<close> block then parses the bare string.
\<close>

definition convertDeviceTimeToUTC :: "(string \<Rightarrow> date) \<Rightarrow> string option \<Rightarrow> string \<Rightarrow> date" where
  "convertDeviceTimeToUTC newDate deviceTimezone localTimeStr =
     (case deviceTimezone of
        None \<Rightarrow> newDate localTimeStr
      | Some tz \<Rightarrow>
          if tz = [] then newDate localTimeStr
          else
            (case newDate (localTimeStr @ tz) of
               Some t \<Rightarrow> Some t
             | None \<Rightarrow> newDate localTimeStr))"

text \<open>
  \<^verbatim>\<open>processAcsEvent\<close>: one entry of the polled log. Polled events are emitted on channel
  \<^verbatim>\<open>'1'\<close> with the flag \<^verbatim>\<open>inactive = false\<close>.
\<close>

definition processAcsEvent ::
  "(string \<Rightarrow> date) \<Rightarrow> int \<Rightarrow> string option \<Rightarrow> AcsEventInfo \<Rightarrow> effect list" where
  "processAcsEvent newDate now deviceTimezone eventInfo =
     (let eventKey = numberToString (major eventInfo) @ '','' @ numberToString (minor eventInfo);
          doorbellEvent = EventCodeMap eventKey
      in if time eventInfo \<noteq> []
            \<and> tooOld now (convertDeviceTimeToUTC newDate deviceTimezone (time eventInfo))
         then []
         else
           (case doorbellEvent of
              Some ev \<Rightarrow>
                (let inactive = False; cameraNumber = ''1''
                 in Emit ev cameraNumber inactive
                    # (if ev = Motion then [StartCallStatusPolling] else []))
            | None \<Rightarrow> []))"

text \<open>A scalar of a parsed JSON frame, and how \<^verbatim>\<open>toString\<close> and a template literal render it.\<close>

datatype jsval = JNum int | JStr string

definition toString :: "jsval \<Rightarrow> string" where
  "toString v = (case v of JNum n \<Rightarrow> numberToString n | JStr s \<Rightarrow> s)"

definition template :: "jsval option \<Rightarrow> string" where
  "template v = (case v of None \<Rightarrow> ''undefined'' | Some x \<Rightarrow> toString x)"

text \<open>\<^verbatim>\<open>v || d\<close> on an optional string: \<^verbatim>\<open>undefined\<close> and the empty string are falsy.\<close>

definition orElse :: "string option \<Rightarrow> string \<Rightarrow> string" where
  "orElse v d = (case v of None \<Rightarrow> d | Some s \<Rightarrow> if s = [] then d else s)"

record AccessControllerEventInfo =
  majorEventType :: "jsval option"
  subEventType :: "jsval option"

record alertStreamEvent =
  channelID :: "jsval option"
  eventType :: "string option"
  eventState :: "string option"
  dateTime :: "string option"
  AccessControllerEvent :: "AccessControllerEventInfo option"

text \<open>\<^verbatim>\<open>processAlertStreamEvent\<close>: one JSON frame of the alert stream.\<close>

definition processAlertStreamEvent ::
  "(string \<Rightarrow> date) \<Rightarrow> int \<Rightarrow> alertStreamEvent \<Rightarrow> effect list" where
  "processAlertStreamEvent newDate now eventData =
     (let cameraNumber = orElse (map_option toString (channelID eventData)) ''1'';
          eventType' = orElse (eventType eventData) [];
          eventState' = orElse (eventState eventData) [];
          inactive = (eventState' = ''inactive'')
      in if (case dateTime eventData of
               None \<Rightarrow> False
             | Some d \<Rightarrow> d \<noteq> [] \<and> tooOld now (newDate d))
         then []
         else if eventType' = ''videoloss'' then []
         else if eventType' = ''AccessControllerEvent'' then
           (case AccessControllerEvent eventData of
              None \<Rightarrow> []
            | Some ace \<Rightarrow>
                (let eventKey = template (majorEventType ace) @ '','' @ template (subEventType ace)
                 in case EventCodeMap eventKey of
                      Some doorbellEvent \<Rightarrow>
                        Emit doorbellEvent cameraNumber inactive
                        # (if doorbellEvent = Motion \<and> \<not> inactive then [StartCallStatusPolling]
                           else [])
                    | None \<Rightarrow> []))
         else [])"

section \<open>ACS event poller\<close>

text \<open>
  The state of one pass over \<^verbatim>\<open>InfoList\<close>: the entries handed to \<^verbatim>\<open>processAcsEvent\<close>, what
  those calls did, and \<^verbatim>\<open>latestEventTime\<close> (\<open>None\<close> while it is \<^verbatim>\<open>undefined\<close>; a Date
  object is truthy even when invalid).
\<close>

record acsCycle =
  processed :: "AcsEventInfo list"
  effects :: "effect list"
  latestEventTime :: "date option"

text \<open>
  The \<^verbatim>\<open>for\<close> loop of \<^verbatim>\<open>pollAndProcessAcsEvents\<close>. It has no \<^verbatim>\<open>await\<close>, so it runs within
  one turn of the event loop; one clock reading \<open>now\<close> serves the whole pass.
\<close>

fun acsLoop ::
  "(string \<Rightarrow> date) \<Rightarrow> int \<Rightarrow> string option \<Rightarrow> date option \<Rightarrow> AcsEventInfo list \<Rightarrow> acsCycle
   \<Rightarrow> acsCycle" where
  "acsLoop newDate now tz lastEventTime [] acc = acc"
| "acsLoop newDate now tz lastEventTime (eventInfo # rest) acc =
     (let eventTime = newDate (time eventInfo)
      in if (case lastEventTime of None \<Rightarrow> False | Some l \<Rightarrow> date_le eventTime l)
         then acsLoop newDate now tz lastEventTime rest acc
         else acsLoop newDate now tz lastEventTime rest
                (acc\<lparr>processed := processed acc @ [eventInfo],
                     effects := effects acc @ processAcsEvent newDate now tz eventInfo,
                     latestEventTime :=
                       (case latestEventTime acc of
                          None \<Rightarrow> Some eventTime
                        | Some l \<Rightarrow> if date_gt eventTime l then Some eventTime else Some l)\<rparr>))"

text \<open>
  \<^verbatim>\<open>pollAndProcessAcsEvents (lastEventTime)\<close>. The response of \<^verbatim>\<open>getAcsEvents\<close> is \<open>Inl\<close>
  when the request or \<^verbatim>\<open>JSON.parse\<close> throws, \<open>Inr None\<close> when \<^verbatim>\<open>AcsEvent\<close> or its
  \<^verbatim>\<open>InfoList\<close> is absent. \<open>lastEventTime\<close> is the argument, the watermark the caller
  read before the request; \<open>lastAcsEventTime\<close> is the field as it stands when the
  response is processed. The result is the pass, the error the call rejects with, if
  any, and the new \<^verbatim>\<open>this.lastAcsEventTime\<close>: a latest time, once found, is stored without
  a comparison, and when it is an Invalid Date \<^verbatim>\<open>latestEventTime.toISOString()\<close> in the
  debug line then throws a RangeError.
\<close>

definition pollAndProcessAcsEvents ::
  "(string \<Rightarrow> date) \<Rightarrow> int \<Rightarrow> string option \<Rightarrow> date option \<Rightarrow> error + AcsEventInfo list option
   \<Rightarrow> date \<Rightarrow> acsCycle \<times> error option \<times> date" where
  "pollAndProcessAcsEvents newDate now tz lastEventTime eventResponse lastAcsEventTime =
     (case eventResponse of
        Inl e \<Rightarrow>
          (\<lparr>processed = [], effects = [], latestEventTime = None\<rparr>, Some e, lastAcsEventTime)
      | Inr infoList \<Rightarrow>
          (let r = acsLoop newDate now tz lastEventTime
                     (case infoList of None \<Rightarrow> [] | Some l \<Rightarrow> l)
                     \<lparr>processed = [], effects = [], latestEventTime = None\<rparr>
           in case latestEventTime r of
                None \<Rightarrow> (r, None, lastAcsEventTime)
              | Some t \<Rightarrow>
                  (r,
                   (case t of
                      None \<Rightarrow> Some (Error ''RangeError: Invalid time value'')
                    | Some ms \<Rightarrow> None),
                   t)))"

text \<open>
  The interval callback of \<^verbatim>\<open>startAcsEventPolling\<close>: one polling cycle from the watermark
  \<^verbatim>\<open>this.lastAcsEventTime\<close>, for a cycle whose request settles before the next tick
  starts, so that the watermark it read is still the stored one when the response is
  processed (cycles that overlap are calls of \<open>pollAndProcessAcsEvents\<close> with two
  different values). A call that rejects is logged; what it emitted and stored before
  stays.
\<close>

definition acsPollingCycle ::
  "(string \<Rightarrow> date) \<Rightarrow> int \<Rightarrow> string option \<Rightarrow> error + AcsEventInfo list option \<Rightarrow> date
   \<Rightarrow> effect list \<times> date" where
  "acsPollingCycle newDate now tz eventResponse lastAcsEventTime =
     (case pollAndProcessAcsEvents newDate now tz (Some lastAcsEventTime) eventResponse
             lastAcsEventTime of
        (r, thrown, w) \<Rightarrow> (effects r, w))"

section \<open>The host's Date constructor on ISO date-time strings\<close>

text \<open>
  \<^verbatim>\<open>new Date (s)\<close> as ECMAScript defines it for the date-time form
  \<^verbatim>\<open>YYYY-MM-DDTHH:mm:ss\<close>, alone (local time of the host), with \<^verbatim>\<open>Z\<close>, or with an
  offset \<^verbatim>\<open>+HH:mm\<close> or \<^verbatim>\<open>-HH:mm\<close>. The host's zone is given by its
  \<^verbatim>\<open>getTimezoneOffset()\<close> in minutes. The definition is the host on these forms only:
  on every other string it answers Invalid Date, where a real host may parse (fractional
  seconds, a space for the \<^verbatim>\<open>T\<close>). It is used on these forms only.
\<close>

definition digitVal :: "char \<Rightarrow> int" where
  "digitVal c = int (length (takeWhile (\<lambda>d. d \<noteq> c) ''0123456789''))"

definition decimal :: "string \<Rightarrow> int option" where
  "decimal s = (if s \<noteq> [] \<and> list_all isDigit s then Some (foldl (\<lambda>a c. 10 * a + digitVal c) 0 s)
                else None)"

definition isLeapYear :: "int \<Rightarrow> bool" where
  "isLeapYear y = (y mod 4 = 0 \<and> (y mod 100 \<noteq> 0 \<or> y mod 400 = 0))"

definition daysInMonth :: "int \<Rightarrow> int \<Rightarrow> int" where
  "daysInMonth y m =
     (if m = 2 then (if isLeapYear y then 29 else 28)
      else if m = 4 \<or> m = 6 \<or> m = 9 \<or> m = 11 then 30 else 31)"

text \<open>Days from 1970-01-01 to the given day of the proleptic Gregorian calendar.\<close>

definition daysFromCivil :: "int \<Rightarrow> int \<Rightarrow> int \<Rightarrow> int" where
  "daysFromCivil y m d =
     (let y' = (if m \<le> 2 then y - 1 else y);
          era = y' div 400;
          yoe = y' - era * 400;
          doy = (153 * (if m > 2 then m - 3 else m + 9) + 2) div 5 + d - 1;
          doe = yoe * 365 + yoe div 4 - yoe div 100 + doy
      in era * 146097 + doe - 719468)"

text \<open>Minutes to add to the written time to reach UTC.\<close>

definition zoneMinutes :: "int \<Rightarrow> string \<Rightarrow> int option" where
  "zoneMinutes hostOffset z =
     (if z = [] then Some hostOffset
      else if z = ''Z'' then Some 0
      else if length z = 6 \<and> z ! 3 = CHR '':'' \<and> (z ! 0 = CHR ''+'' \<or> z ! 0 = CHR ''-'') then
        (case (decimal (take 2 (drop 1 z)), decimal (drop 4 z)) of
           (Some hh, Some mm) \<Rightarrow>
             if hh \<le> 23 \<and> mm \<le> 59
             then Some (if z ! 0 = CHR ''+'' then - (60 * hh + mm) else 60 * hh + mm)
             else None
         | _ \<Rightarrow> None)
      else None)"

definition isoDate :: "int \<Rightarrow> string \<Rightarrow> date" where
  "isoDate hostOffset s =
     (if length s < 19 then None
      else if \<not> (s ! 4 = CHR ''-'' \<and> s ! 7 = CHR ''-'' \<and> s ! 10 = CHR ''T''
                \<and> s ! 13 = CHR '':'' \<and> s ! 16 = CHR '':'') then None
      else
        (case (decimal (take 4 s), decimal (take 2 (drop 5 s)), decimal (take 2 (drop 8 s))) of
           (Some y, Some m, Some d) \<Rightarrow>
             (case (decimal (take 2 (drop 11 s)), decimal (take 2 (drop 14 s)),
                    decimal (take 2 (drop 17 s)), zoneMinutes hostOffset (drop 19 s)) of
                (Some hh, Some mm, Some ss, Some off) \<Rightarrow>
                  if 1 \<le> m \<and> m \<le> 12 \<and> 1 \<le> d \<and> d \<le> daysInMonth y m
                     \<and> hh \<le> 23 \<and> mm \<le> 59 \<and> ss \<le> 59
                  then Some ((((daysFromCivil y m d * 24 + hh) * 60 + mm + off) * 60 + ss) * 1000)
                  else None
              | _ \<Rightarrow> None)
         | _ \<Rightarrow> None))"

section \<open>Call status poller\<close>

record callStatus =
  isRinging :: bool
  callState :: string

text \<open>
  \<^verbatim>\<open>getCallStatus\<close>. Its input is what the request and \<^verbatim>\<open>JSON.parse\<close> deliver: \<open>Inl\<close>
  when either throws (or the body is \<^verbatim>\<open>null\<close>, whose member access throws),
  \<open>Inr None\<close> for an object with no \<^verbatim>\<open>CallStatus\<close>, \<open>Inr (Some None)\<close> for a
  \<^verbatim>\<open>CallStatus\<close> with no \<^verbatim>\<open>status\<close>. The whole body is inside \<^verbatim>\<open>try\<close>, and the \<^verbatim>\<open>catch\<close>
  block returns the idle status.
\<close>

definition getCallStatus :: "error + string option option \<Rightarrow> callStatus" where
  "getCallStatus response =
     (case response of
        Inr callData \<Rightarrow>
          (let callState' = orElse (case callData of None \<Rightarrow> None | Some CallStatus \<Rightarrow> CallStatus)
                              ''idle''
           in \<lparr>isRinging = (callState' = ''ringing''), callState = callState'\<rparr>)
      | Inl e \<Rightarrow> \<lparr>isRinging = False, callState = ''idle''\<rparr>)"

text \<open>
  The interval callback of \<^verbatim>\<open>startCallStatusPolling\<close> after \<^verbatim>\<open>getCallStatus\<close> has
  returned: from \<^verbatim>\<open>this.lastCallState\<close> and the polled state to what is emitted and the
  new \<^verbatim>\<open>this.lastCallState\<close>.
\<close>

definition onCallState :: "string \<Rightarrow> string \<Rightarrow> effect list \<times> string" where
  "onCallState lastCallState callState' =
     (if callState' \<noteq> lastCallState then
        ((if callState' = ''ringing'' \<and> lastCallState = ''idle''
          then [Emit TalkInvite ''1'' False]
          else if lastCallState = ''ringing'' \<and> callState' = ''idle''
          then [Emit TalkHangup ''1'' False]
          else []),
         callState')
      else ([], lastCallState))"

definition callStatusTick :: "string \<Rightarrow> error + string option option \<Rightarrow> effect list \<times> string" where
  "callStatusTick lastCallState response =
     onCallState lastCallState (callState (getCallStatus response))"

text \<open>Successive ticks of the interval, each on the state the poll returned.\<close>

fun callStatusPolling :: "string \<Rightarrow> string list \<Rightarrow> effect list \<times> string" where
  "callStatusPolling lastCallState [] = ([], lastCallState)"
| "callStatusPolling lastCallState (callState' # rest) =
     (let (out, l) = onCallState lastCallState callState';
          (outs, l') = callStatusPolling l rest
      in (out @ outs, l'))"

text \<open>
  The spec's edge detector, in its words: a TalkInvite on the edge previous = idle,
  current = ringing; a TalkHangup on the edge previous = ringing, current = idle; every
  other transition is silent.
\<close>

definition edgeSignal :: "string \<Rightarrow> string \<Rightarrow> effect list" where
  "edgeSignal previous current =
     (if previous = ''idle'' \<and> current = ''ringing'' then [Emit TalkInvite ''1'' False]
      else if previous = ''ringing'' \<and> current = ''idle'' then [Emit TalkHangup ''1'' False]
      else [])"

section \<open>Capability store\<close>

text \<open>
  What \<^verbatim>\<open>xml2js\<close> delivers for an element read as \<^verbatim>\<open>parent?.name?.[0]\<close>: nothing; for
  an element with neither attributes nor children its text, a string, which is empty for
  an empty element; otherwise an object, whose attribute object \<^verbatim>\<open>$\<close> is \<^verbatim>\<open>undefined\<close>
  when the element has no attributes.
\<close>

datatype 'a xmlElement = NoElement | Text string | Node "'a option"

record doorNoAttrs =
  minAttr :: "string option"
  maxAttr :: "string option"

record RemoteControlDoor =
  doorNo :: "doorNoAttrs xmlElement"
  cmd :: "string option xmlElement"

text \<open>\<^verbatim>\<open>parseInt (v) || 1\<close>: NaN and 0 are falsy; \<^verbatim>\<open>parseInt (undefined)\<close> is NaN.\<close>

definition parseIntOr1 :: "(string \<Rightarrow> int option) \<Rightarrow> string option \<Rightarrow> int" where
  "parseIntOr1 parseInt v =
     (case (case v of None \<Rightarrow> None | Some s \<Rightarrow> parseInt s) of
        None \<Rightarrow> 1
      | Some n \<Rightarrow> if n = 0 then 1 else n)"

text \<open>\<^verbatim>\<open>s.split (',')\<close> and \<^verbatim>\<open>c.trim()\<close> (on the ASCII white space).\<close>

fun splitComma :: "string \<Rightarrow> string list" where
  "splitComma [] = [[]]"
| "splitComma (c # cs) =
     (if c = CHR '','' then [] # splitComma cs
      else (case splitComma cs of
              [] \<Rightarrow> [[c]]
            | w # ws \<Rightarrow> (c # w) # ws))"

definition isSpace :: "char \<Rightarrow> bool" where
  "isSpace c = (c \<in> set [CHR '' '', CHR 0x09, CHR 0x0A, CHR 0x0B, CHR 0x0C, CHR 0x0D])"

definition trim :: "string \<Rightarrow> string" where
  "trim s = rev (dropWhile isSpace (rev (dropWhile isSpace s)))"

text \<open>
  The fields of \<^verbatim>\<open>HikvisionDoorbellAPI\<close> that hold the capabilities. A promise of
  \<^verbatim>\<open>performCapabilitiesLoad\<close> is named by the number of the request it issued;
  \<open>requests\<close> counts the capability requests issued so far, and \<open>settled\<close> records
  how each promise ended: absent while pending, \<open>Some None\<close> fulfilled,
  \<open>Some (Some e)\<close> rejected with \<open>e\<close>.
\<close>

record capabilityStore =
  doorMinNo :: int
  doorMaxNo :: int
  availableCommands :: "string list"
  capabilitiesLoaded :: bool
  loadCapabilitiesPromise :: "nat option"
  requests :: nat
  settled :: "nat \<rightharpoonup> error option"

text \<open>The store of a fresh \<^verbatim>\<open>HikvisionDoorbellAPI\<close>, before its constructor's first load.\<close>

definition newCapabilityStore :: capabilityStore where
  "newCapabilityStore =
     \<lparr>doorMinNo = 1, doorMaxNo = 1,
      availableCommands = [''open'', ''close'', ''alwaysOpen'', ''alwaysClose''],
      capabilitiesLoaded = False, loadCapabilitiesPromise = None,
      requests = 0, settled = Map.empty\<rparr>"

text \<open>
  What the promise returned by a call of \<^verbatim>\<open>loadDoorCapabilities\<close> settles to: fulfilled
  at once, or as the promise of the load in flight settles (the starter awaits it and
  rethrows, a later caller returns it).
\<close>

datatype awaited = Resolved | Follows nat

text \<open>
  \<^verbatim>\<open>loadDoorCapabilities\<close> up to its \<^verbatim>\<open>await\<close>. JavaScript runs it to that point without
  interruption; \<^verbatim>\<open>performCapabilitiesLoad()\<close> issues its request before it returns its
  promise.
\<close>

definition loadDoorCapabilities :: "capabilityStore \<Rightarrow> awaited \<times> capabilityStore" where
  "loadDoorCapabilities s =
     (if capabilitiesLoaded s then (Resolved, s)
      else
        (case loadCapabilitiesPromise s of
           Some p \<Rightarrow> (Follows p, s)
         | None \<Rightarrow>
             (let p = requests s
              in (Follows p, s\<lparr>loadCapabilitiesPromise := Some p, requests := Suc (requests s)\<rparr>))))"

text \<open>
  \<^verbatim>\<open>performCapabilitiesLoad\<close> from the arrival of the response of request \<open>p\<close>: \<open>Inl\<close>
  when the request or the XML parser throws. In \<^verbatim>\<open>doorNo && doorNo.$\<close> a string has no
  \<^verbatim>\<open>$\<close>, so only attributes store the door range. In \<^verbatim>\<open>cmd && cmd.$.opt\<close> the empty
  string of an empty element is falsy and ends the test; a \<^verbatim>\<open>cmd\<close> with text or children
  but no attributes makes \<^verbatim>\<open>cmd.$.opt\<close> throw a TypeError, after the door range has been
  stored.
\<close>

definition performCapabilitiesLoad ::
  "(string \<Rightarrow> int option) \<Rightarrow> nat \<Rightarrow> error + RemoteControlDoor \<Rightarrow> capabilityStore
   \<Rightarrow> capabilityStore" where
  "performCapabilitiesLoad parseInt p response s =
     (case response of
        Inl e \<Rightarrow> s\<lparr>settled := (settled s)(p \<mapsto> Some e)\<rparr>
      | Inr parsedXml \<Rightarrow>
          (let s1 = (case doorNo parsedXml of
                       Node (Some a) \<Rightarrow>
                         s\<lparr>doorMinNo := parseIntOr1 parseInt (minAttr a),
                           doorMaxNo := parseIntOr1 parseInt (maxAttr a)\<rparr>
                     | _ \<Rightarrow> s);
                loaded = s1\<lparr>capabilitiesLoaded := True, settled := (settled s1)(p \<mapsto> None)\<rparr>;
                typeError = s1\<lparr>settled := (settled s1)(p \<mapsto>
                              Some (Error ''TypeError: Cannot read properties of undefined''))\<rparr>
           in case cmd parsedXml of
                NoElement \<Rightarrow> loaded
              | Text t \<Rightarrow> if t = [] then loaded else typeError
              | Node None \<Rightarrow> typeError
              | Node (Some opt) \<Rightarrow>
                  (let s2 = (case opt of
                               None \<Rightarrow> s1
                             | Some v \<Rightarrow>
                                 if v = [] then s1
                                 else s1\<lparr>availableCommands := map trim (splitComma v)\<rparr>)
                   in s2\<lparr>capabilitiesLoaded := True, settled := (settled s2)(p \<mapsto> None)\<rparr>)))"

text \<open>The \<^verbatim>\<open>finally\<close> block of the call that started the load.\<close>

definition loadDoorCapabilities_finally :: "capabilityStore \<Rightarrow> capabilityStore" where
  "loadDoorCapabilities_finally s = s\<lparr>loadCapabilitiesPromise := None\<rparr>"

text \<open>\<open>n\<close> calls of \<^verbatim>\<open>loadDoorCapabilities\<close>, one after the other, with no response between.\<close>

fun loadCalls :: "nat \<Rightarrow> capabilityStore \<Rightarrow> awaited list \<times> capabilityStore" where
  "loadCalls 0 s = ([], s)"
| "loadCalls (Suc n) s =
     (let (a, s1) = loadDoorCapabilities s;
          (as, s2) = loadCalls n s1
      in (a # as, s2))"

text \<open>
  How a caller's promise stands in a store: \<open>None\<close> pending, \<open>Some None\<close> fulfilled,
  \<open>Some (Some e)\<close> rejected with \<open>e\<close>.
\<close>

definition observed :: "capabilityStore \<Rightarrow> awaited \<Rightarrow> error option option" where
  "observed s a = (case a of Resolved \<Rightarrow> Some None | Follows p \<Rightarrow> settled s p)"

section \<open>Fallback to the cache\<close>

type_synonym storage = "string \<rightharpoonup> string"

text \<open>
  The first two steps of \<^verbatim>\<open>getDoorOpenDuration\<close>. The capabilities are awaited when they
  are not loaded: \<open>awaitLoad\<close> gives the store as it stands when the awaited
  \<^verbatim>\<open>loadDoorCapabilities()\<close> has settled, or the error it rejected with. Then the door
  number is checked against the range; a comparison with NaN is false, so a door number
  that does not parse passes.
\<close>

definition ensureCapabilities ::
  "(capabilityStore \<Rightarrow> error + capabilityStore) \<Rightarrow> capabilityStore \<Rightarrow> error + capabilityStore" where
  "ensureCapabilities awaitLoad s = (if \<not> capabilitiesLoaded s then awaitLoad s else Inr s)"

definition doorOutOfRange :: "(string \<Rightarrow> int option) \<Rightarrow> capabilityStore \<Rightarrow> string \<Rightarrow> bool" where
  "doorOutOfRange parseInt s doorNo' =
     (case parseInt doorNo' of
        None \<Rightarrow> False
      | Some doorNum \<Rightarrow> doorNum < doorMinNo s \<or> doorNum > doorMaxNo s)"

definition outOfRangeError :: "capabilityStore \<Rightarrow> string \<Rightarrow> error" where
  "outOfRangeError s doorNo' =
     Error (''Door number '' @ doorNo' @ '' is out of range. Valid range: ''
            @ numberToString (doorMinNo s) @ ''-'' @ numberToString (doorMaxNo s))"

text \<open>
  \<^verbatim>\<open>getDoorOpenDuration (doorNo)\<close>. \<open>response\<close> is the body of the live request, or the
  error it threw; the request is made only when the first two steps have passed. The
  parameter \<open>openDurationOf\<close> stands for the tail of the function on the XML it settled
  on, \<^verbatim>\<open>xml2js.parseStringPromise (xml)\<close> followed by
  \<^verbatim>\<open>Number (parsedXml.DoorParam?.openDuration?.[0])\<close>: \<open>Inl\<close> when the parser or the
  access throws.
\<close>

definition getDoorOpenDuration ::
  "(string \<Rightarrow> int option) \<Rightarrow> (string \<Rightarrow> error + 'd)
   \<Rightarrow> (capabilityStore \<Rightarrow> error + capabilityStore) \<Rightarrow> capabilityStore
   \<Rightarrow> string \<Rightarrow> error + string \<Rightarrow> storage \<Rightarrow> (error + 'd) \<times> storage" where
  "getDoorOpenDuration parseInt openDurationOf awaitLoad s doorNo' response store =
     (case ensureCapabilities awaitLoad s of
        Inl e \<Rightarrow> (Inl e, store)
      | Inr s' \<Rightarrow>
          if doorOutOfRange parseInt s' doorNo'
          then (Inl (outOfRangeError s' doorNo'), store)
          else
            (let storageKey = ''doorOpenDuration_'' @ doorNo'
             in case response of
                  Inr xml \<Rightarrow>
                    (openDurationOf xml, store(storageKey \<mapsto> xml))
                | Inl e \<Rightarrow>
                    (case store storageKey of
                       None \<Rightarrow> (Inl e, store)
                     | Some xml \<Rightarrow>
                         if xml = [] then (Inl e, store)
                         else (openDurationOf xml, store))))"

text \<open>A streaming channel of the SDK; only its \<^verbatim>\<open>id\<close> is read here.\<close>

record MediaStreamOptions =
  id' :: string

text \<open>The tail of \<^verbatim>\<open>getVideoChannels\<close>: the channels keyed by their id, a later one winning.\<close>

definition channelMap ::
  "'a MediaStreamOptions_scheme list \<Rightarrow> (string \<rightharpoonup> 'a MediaStreamOptions_scheme)" where
  "channelMap channels = fold (\<lambda>streamingChannel ret. ret(id' streamingChannel \<mapsto> streamingChannel))
                           channels Map.empty"

text \<open>
  \<^verbatim>\<open>getVideoChannels\<close>. \<open>codecs\<close> is what \<^verbatim>\<open>getCodecs (camNumber)\<close> delivers or throws;
  \<open>stringify\<close> and \<open>parse\<close> stand for \<^verbatim>\<open>JSON.stringify\<close> and \<^verbatim>\<open>JSON.parse\<close> on channel
  lists.
\<close>

definition getVideoChannels ::
  "('a MediaStreamOptions_scheme list \<Rightarrow> string)
   \<Rightarrow> (string \<Rightarrow> error + 'a MediaStreamOptions_scheme list)
   \<Rightarrow> error + 'a MediaStreamOptions_scheme list \<Rightarrow> storage
   \<Rightarrow> (error + (string \<rightharpoonup> 'a MediaStreamOptions_scheme)) \<times> storage" where
  "getVideoChannels stringify parse codecs store =
     (let (channels, store') =
            (case codecs of
               Inr cs \<Rightarrow> (Inr cs, store(''channelsJSON'' \<mapsto> stringify cs))
             | Inl e \<Rightarrow>
                 (case store ''channelsJSON'' of
                    None \<Rightarrow> (Inl e, store)
                  | Some raw \<Rightarrow> if raw = [] then (Inl e, store) else (parse raw, store)))
      in case channels of
           Inl e \<Rightarrow> (Inl e, store')
         | Inr cs \<Rightarrow> (Inr (channelMap cs), store'))"

text \<open>
  The host's XML parser and \<^verbatim>\<open>Number\<close> on two bodies: a door parameter document with an
  open duration of 5 seconds, and the empty body, for which the parser delivers
  \<^verbatim>\<open>null\<close> and the member access throws. The definition is the host on these two bodies
  only and is used on them only; on any other body it answers with the same error.
\<close>

definition sampleOpenDurationOf :: "string \<Rightarrow> error + int option" where
  "sampleOpenDurationOf xml =
     (if xml = ''<DoorParam><openDuration>5</openDuration></DoorParam>'' then Inr (Some 5)
      else Inl (Error ''TypeError: Cannot read properties of null''))"

section \<open>HikvisionCameraDoorbell.listenEvents: the event handler of the doorbell\<close>

datatype LockState = Locked | Unlocked

record HikvisionLock =
  lockState :: LockState

text \<open>\<^verbatim>\<open>EntrySensor.entryOpen\<close> of the SDK: a boolean or \<^verbatim>\<open>'jammed'\<close>.\<close>

datatype EntryOpen = EntryOpen bool | Jammed

text \<open>
  An entry sensor device: \<^verbatim>\<open>entryOpen\<close>, which its constructor initialises, and the
  device property \<^verbatim>\<open>binaryState\<close>, undefined until it is assigned.
\<close>

record HikvisionEntrySensor =
  entryOpen :: EntryOpen
  sensorBinaryState :: "bool option"

text \<open>What a pending timer does when it fires, and the timer with its delay in ms.\<close>

datatype timerAction = MotionReset | AutoLock string | StopRinging

record timer =
  timerId :: nat
  action :: timerAction
  delay :: "int option"

text \<open>
  The state the handler of \<^verbatim>\<open>listenEvents\<close> works on: the fields of
  \<^verbatim>\<open>HikvisionCameraDoorbell\<close>, the variables of the closure, and the event loop's pending
  timers. \<open>suspended\<close> holds the handler calls that wait at
  \<^verbatim>\<open>await this.getClient().getDoorOpenDuration (doorNo)\<close>, each with its door number and
  the native id of its lock; \<open>controlEvents\<close> the notifications queued by
  \<^verbatim>\<open>setImmediate\<close>. \<open>tamperAlert\<close> is \<open>None\<close> when no tamper device is provisioned.
\<close>

record doorbell =
  nativeId :: string
  locks :: "string \<rightharpoonup> HikvisionLock"
  entrySensors :: "string \<rightharpoonup> HikvisionEntrySensor"
  tamperAlert :: "bool option"
  motionDetected :: bool
  binaryState :: bool
  doorOpenDurationTimeout :: "nat option"
  motionTimeout :: "nat option"
  motionPings :: nat
  motionPingsNeeded :: nat
  motionTimeoutDuration :: int
  timers :: "timer list"
  nextTimerId :: nat
  suspended :: "(string \<times> string) list"
  controlEvents :: "HikvisionDoorbellEvent list"

definition OPEN_LOCK_AUDIO_NOTIFY_DURASTION :: int where
  "OPEN_LOCK_AUDIO_NOTIFY_DURASTION = 3000"

text \<open>\<^verbatim>\<open>setTimeout\<close>: a new pending timer; its handle is \<open>nextTimerId\<close> of the state before.\<close>

definition setTimeout :: "timerAction \<Rightarrow> int option \<Rightarrow> doorbell \<Rightarrow> doorbell" where
  "setTimeout a ms d =
     d\<lparr>timers := timers d @ [\<lparr>timerId = nextTimerId d, action = a, delay = ms\<rparr>],
       nextTimerId := Suc (nextTimerId d)\<rparr>"

text \<open>\<^verbatim>\<open>clearTimeout\<close>: no effect on \<^verbatim>\<open>undefined\<close> or on a timer that is no longer pending.\<close>

definition clearTimeout :: "nat option \<Rightarrow> doorbell \<Rightarrow> doorbell" where
  "clearTimeout h d =
     (case h of
        None \<Rightarrow> d
      | Some i \<Rightarrow> d\<lparr>timers := filter (\<lambda>t. timerId t \<noteq> i) (timers d)\<rparr>)"

text \<open>
  The handler of \<^verbatim>\<open>events.on ('event', async (event, doorNo) => ...)\<close> up to its
  \<^verbatim>\<open>await\<close>, or to its end where it has none. The third argument of the emission is not
  among its parameters.
\<close>

definition onEvent :: "HikvisionDoorbellEvent \<Rightarrow> string \<Rightarrow> doorbell \<Rightarrow> doorbell" where
  "onEvent event0 doorNo' d0 =
     (let (event, d) =
            (if event0 = CaseTamperAlert then
               (case tamperAlert d0 of
                  Some on \<Rightarrow> (event0, d0\<lparr>tamperAlert := Some True\<rparr>)
                | None \<Rightarrow> (Motion, d0))
             else (event0, d0))
      in if event = Motion then
           (let d1 = d\<lparr>motionPings := Suc (motionPings d)\<rparr>;
                d2 = d1\<lparr>motionDetected := (motionPings d1 \<ge> motionPingsNeeded d1)\<rparr>;
                d3 = clearTimeout (motionTimeout d2) d2
            in (setTimeout MotionReset (Some (motionTimeoutDuration d3)) d3)
                 \<lparr>motionTimeout := Some (nextTimerId d3)\<rparr>)
         else if event = TalkInvite then
           d\<lparr>binaryState := True, controlEvents := controlEvents d @ [event]\<rparr>
         else if event = TalkHangup then
           d\<lparr>binaryState := False, controlEvents := controlEvents d @ [event]\<rparr>
         else if event = Unlock \<or> event = Lock then
           (let lockNativeId = nativeId d @ ''-lock-'' @ doorNo'
            in case locks d lockNativeId of
                 Some lock \<Rightarrow>
                   (let isUnlock = (event = Unlock);
                        d1 = d\<lparr>locks := (locks d)(lockNativeId \<mapsto>
                                 lock\<lparr>lockState := (if isUnlock then Unlocked else Locked)\<rparr>)\<rparr>;
                        d2 = clearTimeout (doorOpenDurationTimeout d1) d1
                    in if isUnlock
                       then d2\<lparr>suspended := suspended d2 @ [(doorNo', lockNativeId)]\<rparr>
                       else d2)
               | None \<Rightarrow> d)
         else if event = DoorOpened \<or> event = DoorClosed then
           (let sensorNativeId = nativeId d @ ''-entry-'' @ doorNo'
            in case entrySensors d sensorNativeId of
                 Some entrySensor \<Rightarrow>
                   (let isOpen = (event = DoorOpened)
                    in d\<lparr>entrySensors := (entrySensors d)(sensorNativeId \<mapsto>
                           entrySensor\<lparr>sensorBinaryState := Some isOpen\<rparr>)\<rparr>)
               | None \<Rightarrow> d)
         else d)"

text \<open>
  The rest of the Unlock branch, when \<^verbatim>\<open>getDoorOpenDuration\<close> settles for the \<open>i\<close>-th
  suspended call: with a duration (\<open>None\<close> for NaN) the auto-lock timer is set and its
  handle stored, then the timer that stops the ringing; with an error the call ends.
\<close>

definition resumeUnlock :: "nat \<Rightarrow> error + int option \<Rightarrow> doorbell \<Rightarrow> doorbell" where
  "resumeUnlock i result d =
     (if i < length (suspended d) then
        (let (doorNo', lockNativeId) = suspended d ! i;
             d1 = d\<lparr>suspended := take i (suspended d) @ drop (Suc i) (suspended d)\<rparr>
         in case result of
              Inl e \<Rightarrow> d1
            | Inr duration \<Rightarrow>
                (let timeout = map_option (\<lambda>n. n * 1000) duration;
                     d2 = (setTimeout (AutoLock lockNativeId) timeout d1)
                            \<lparr>doorOpenDurationTimeout := Some (nextTimerId d1)\<rparr>
                 in setTimeout StopRinging (Some OPEN_LOCK_AUDIO_NOTIFY_DURASTION) d2))
      else d)"

text \<open>A pending timer fires: it leaves the pending timers and its callback runs.\<close>

definition fire :: "nat \<Rightarrow> doorbell \<Rightarrow> doorbell" where
  "fire i d =
     (case find (\<lambda>t. timerId t = i) (timers d) of
        None \<Rightarrow> d
      | Some t \<Rightarrow>
          (let d1 = d\<lparr>timers := filter (\<lambda>t. timerId t \<noteq> i) (timers d)\<rparr>
           in case action t of
                MotionReset \<Rightarrow> d1\<lparr>motionDetected := False, motionPings := 0\<rparr>
              | AutoLock lockNativeId \<Rightarrow>
                  (case locks d1 lockNativeId of
                     Some lock \<Rightarrow>
                       d1\<lparr>locks := (locks d1)(lockNativeId \<mapsto> lock\<lparr>lockState := Locked\<rparr>)\<rparr>
                   | None \<Rightarrow> d1)
              | StopRinging \<Rightarrow> d1))"

datatype step =
    OnEvent HikvisionDoorbellEvent string
  | ResumeUnlock nat "error + int option"
  | Fire nat

fun runStep :: "step \<Rightarrow> doorbell \<Rightarrow> doorbell" where
  "runStep (OnEvent event doorNo') d = onEvent event doorNo' d"
| "runStep (ResumeUnlock i result) d = resumeUnlock i result d"
| "runStep (Fire i) d = fire i d"

definition run :: "step list \<Rightarrow> doorbell \<Rightarrow> doorbell" where
  "run steps d = fold runStep steps d"

text \<open>The auto-lock timers that are pending.\<close>

definition pendingAutoLocks :: "doorbell \<Rightarrow> timer list" where
  "pendingAutoLocks d = filter (\<lambda>t. (case action t of AutoLock l \<Rightarrow> True | _ \<Rightarrow> False)) (timers d)"

text \<open>
  A doorbell \<^verbatim>\<open>cam\<close> listening with the default motion settings, with the lock and the
  entry sensor of door 1 provisioned and no tamper device.
\<close>

definition cam :: doorbell where
  "cam =
     \<lparr>nativeId = ''cam'',
      locks = [''cam-lock-1'' \<mapsto> \<lparr>lockState = Locked\<rparr>],
      entrySensors = [''cam-entry-1'' \<mapsto> \<lparr>entryOpen = EntryOpen False, sensorBinaryState = None\<rparr>],
      tamperAlert = None, motionDetected = False, binaryState = False,
      doorOpenDurationTimeout = None, motionTimeout = None, motionPings = 0,
      motionPingsNeeded = 1, motionTimeoutDuration = 10000,
      timers = [], nextTimerId = 0, suspended = [], controlEvents = []\<rparr>"

text \<open>
  \<^verbatim>\<open>JSON.parse\<close> of the host on two texts: the channel list with the one channel of id
  101, and anything else, taken as malformed.
\<close>

definition sampleChannelsJSON :: string where
  "sampleChannelsJSON =
     ''[{'' @ [CHR 0x22] @ ''id'' @ [CHR 0x22] @ '':'' @ [CHR 0x22] @ ''101'' @ [CHR 0x22] @ ''}]''"

definition sampleParse :: "string \<Rightarrow> error + MediaStreamOptions list" where
  "sampleParse raw =
     (if raw = sampleChannelsJSON then Inr [\<lparr>id' = ''101''\<rparr>]
      else Inl (Error ''SyntaxError: Unexpected token''))"

section \<open>Properties\<close>

lemma matchTz_minus3: "matchTz ''CST-3:00:00'' = Some (CHR ''-'', ''3'', ''00'')"
  by (simp add: matchTzHere_def matchTzTail_def isDigit_def)

lemma matchTz_plus530: "matchTz ''CST+5:30:00'' = Some (CHR ''+'', ''5'', ''30'')"
  by (simp add: matchTzHere_def matchTzTail_def isDigit_def)

text \<open>
  C3. Timezone parsing inverts the device's sign convention: the device string
  \<^verbatim>\<open>CST-3:00:00\<close> resolves to the offset \<^verbatim>\<open>+03:00\<close>, and \<^verbatim>\<open>CST+5:30:00\<close> resolves to
  \<^verbatim>\<open>-05:30\<close>, whatever the host's own offset is.
\<close>

theorem C3_timezone_sign_inverted:
  "getDeviceTimezone systemOffset (Inr (Some ''CST-3:00:00'')) = ''+03:00''
   \<and> getDeviceTimezone systemOffset (Inr (Some ''CST+5:30:00'')) = ''-05:30''"
  by (simp add: getDeviceTimezone_def parseDeviceTimezone_def matchTz_minus3 matchTz_plus530
      padStart2_def del: matchTz.simps)

subsection \<open>Evaluations of the host functions\<close>

lemma isoDate_noon_local:
  "isoDate 0 ''2024-01-01T12:00:00'' = Some 1704110400000"
  by (simp add: isoDate_def decimal_def isDigit_def digitVal_def zoneMinutes_def daysInMonth_def
      daysFromCivil_def isLeapYear_def)

lemma isoDate_noon_Z:
  "isoDate 0 ''2024-01-01T12:00:00Z'' = Some 1704110400000"
  by (simp add: isoDate_def decimal_def isDigit_def digitVal_def zoneMinutes_def daysInMonth_def
      daysFromCivil_def isLeapYear_def)

lemma isoDate_noon_plus3:
  "isoDate 0 ''2024-01-01T12:00:00+03:00'' = Some 1704099600000"
  by (simp add: isoDate_def decimal_def isDigit_def digitVal_def zoneMinutes_def daysInMonth_def
      daysFromCivil_def isLeapYear_def)

lemma isoDate_noon_minus5:
  "isoDate 0 ''2024-01-01T12:00:00-05:00'' = Some 1704128400000"
  by (simp add: isoDate_def decimal_def isDigit_def digitVal_def zoneMinutes_def daysInMonth_def
      daysFromCivil_def isLeapYear_def)

lemma numberToString_1: "numberToString 1 = ''1''"
  by (simp add: numberToString_def digitsOf.simps)

lemma numberToString_5: "numberToString 5 = ''5''"
  by (simp add: numberToString_def digitsOf.simps)

lemma numberToString_25: "numberToString 25 = ''25''"
  by (simp add: numberToString_def digitsOf.simps)

lemma numberToString_92: "numberToString 92 = ''92''"
  by (simp add: numberToString_def digitsOf.simps)

lemma numberToString_214: "numberToString 214 = ''214''"
  by (simp add: numberToString_def digitsOf.simps)

lemmas numberToString_evals =
  numberToString_1 numberToString_5 numberToString_25 numberToString_92 numberToString_214

subsection \<open>The age filter\<close>

text \<open>
  On clock readings in whole milliseconds, an age of more than \<open>maxEventAgeSeconds\<close>
  seconds is a difference of more than 30000 ms.
\<close>

lemma tooOld_iff: "tooOld now (Some t) \<longleftrightarrow> now - t > 30 * 1000"
proof -
  have "(real_of_int (now - t) / 1000 > 30) = (real_of_int (30 * 1000) < real_of_int (now - t))"
    by (simp add: field_simps)
  also have "\<dots> = (30 * 1000 < now - t)"
    by (rule of_int_less_iff)
  finally show ?thesis
    by (simp add: tooOld_def ageInSeconds_def maxEventAgeSeconds_def)
qed

text \<open>
  What the age filter does on the code: each path drops an event that is more than 30
  seconds old by the time that path itself reads, the alert stream by
  \<^verbatim>\<open>new Date (dateTime)\<close>, without the device timezone, the polled log by
  \<^verbatim>\<open>convertDeviceTimeToUTC (time)\<close>. Times are in milliseconds.
\<close>

lemma stale_by_own_reading_not_emitted:
  "(dateTime eventData = Some d \<and> d \<noteq> [] \<and> newDate d = Some t \<and> now - t > 30 * 1000
      \<longrightarrow> processAlertStreamEvent newDate now eventData = [])
   \<and> (time eventInfo \<noteq> [] \<and> convertDeviceTimeToUTC newDate tz (time eventInfo) = Some t'
        \<and> now - t' > 30 * 1000
      \<longrightarrow> processAcsEvent newDate now tz eventInfo = [])"
  by (simp add: processAlertStreamEvent_def processAcsEvent_def tooOld_iff Let_def)

text \<open>
  C2 at a failing input, on a host in UTC with the device at \<^verbatim>\<open>+03:00\<close>. A frame of the
  alert stream is dated \<^verbatim>\<open>2024-01-01T12:00:00\<close> in device time, that is 09:00:00 UTC by
  the timezone resolver, and is normalized at 09:10:00 UTC, 600 seconds later.
  \<^verbatim>\<open>processAlertStreamEvent\<close> reads the date with \<^verbatim>\<open>new Date (eventData.dateTime)\<close>,
  without the device timezone, takes the frame for one from the future and emits
  DoorOpened. \<^verbatim>\<open>processAcsEvent\<close>, which resolves the same date with
  \<^verbatim>\<open>convertDeviceTimeToUTC\<close>, drops the entry at the same clock reading.
\<close>

theorem C2_stream_age_ignores_device_timezone:
  "convertDeviceTimeToUTC (isoDate 0) (Some ''+03:00'') ''2024-01-01T12:00:00'' = Some 1704099600000
   \<and> (1704100200000::int) - 1704099600000 > 30 * 1000
   \<and> processAlertStreamEvent (isoDate 0) 1704100200000
       \<lparr>channelID = Some (JNum 1), eventType = Some ''AccessControllerEvent'',
        eventState = Some ''active'', dateTime = Some ''2024-01-01T12:00:00'',
        AccessControllerEvent = Some \<lparr>majorEventType = Some (JNum 5), subEventType = Some (JNum 25)\<rparr>\<rparr>
     = [Emit DoorOpened ''1'' False]
   \<and> processAcsEvent (isoDate 0) 1704100200000 (Some ''+03:00'')
       \<lparr>major = 5, minor = 25, time = ''2024-01-01T12:00:00'', remoteHostAddr = ''0.0.0.0'', mask = ''''\<rparr>
     = []"
  by (simp add: processAcsEvent_def processAlertStreamEvent_def Let_def numberToString_evals
      EventCodeMap_def tooOld_iff convertDeviceTimeToUTC_def isoDate_noon_local isoDate_noon_plus3
      orElse_def toString_def template_def)

subsection \<open>The flag of an emitted event\<close>

lemma orElse_inactive: "(orElse v [] = ''inactive'') = (v = Some ''inactive'')"
  by (auto simp: orElse_def split: option.splits)

lemma alertStream_flag:
  "Emit k ch b \<in> set (processAlertStreamEvent newDate now eventData)
   \<Longrightarrow> b = (eventState eventData = Some ''inactive'')"
  by (simp add: processAlertStreamEvent_def Let_def orElse_inactive
      split: option.splits if_splits)

lemma acs_flag:
  "Emit k ch b \<in> set (processAcsEvent newDate now tz eventInfo) \<Longrightarrow> b = False"
  by (simp add: processAcsEvent_def Let_def split: option.splits if_splits)

text \<open>
  C8, as the code has it. The boolean handed to the subscribers in the third position of
  \<^verbatim>\<open>emitEvent ('event', kind, channel, flag)\<close> is the flag \<^verbatim>\<open>inactive\<close>, the negation of
  the canonical event's \<open>active\<close>: for an event of the alert stream it is
  \<^verbatim>\<open>eventState === 'inactive'\<close>, for an event of the ACS poller it is always \<^verbatim>\<open>false\<close>.
\<close>

theorem C8_flag_is_inactive:
  "(Emit k ch b \<in> set (processAlertStreamEvent newDate now eventData)
      \<longrightarrow> b = (eventState eventData = Some ''inactive''))
   \<and> (Emit k' ch' b' \<in> set (processAcsEvent newDate now tz eventInfo) \<longrightarrow> b' = False)"
  using alertStream_flag [of k ch b newDate now eventData]
    acs_flag [of k' ch' b' newDate now tz eventInfo]
  by blast

theorem C8_flag_is_inactive_witness:
  "Emit DoorOpened ''1'' True \<in> set (processAlertStreamEvent (isoDate 0) 1704110400000
       \<lparr>channelID = Some (JNum 1), eventType = Some ''AccessControllerEvent'',
        eventState = Some ''inactive'', dateTime = Some ''2024-01-01T12:00:00Z'',
        AccessControllerEvent = Some \<lparr>majorEventType = Some (JNum 5), subEventType = Some (JNum 25)\<rparr>\<rparr>)
   \<and> True = (eventState \<lparr>channelID = Some (JNum 1), eventType = Some ''AccessControllerEvent'',
        eventState = Some ''inactive'', dateTime = Some ''2024-01-01T12:00:00Z'',
        AccessControllerEvent = Some \<lparr>majorEventType = Some (JNum 5), subEventType = Some (JNum 25)\<rparr>\<rparr>
         = Some ''inactive'')
   \<and> Emit DoorOpened ''1'' False \<in> set (processAcsEvent (isoDate 0) 1704110400000 None
       \<lparr>major = 5, minor = 25, time = ''2024-01-01T12:00:00Z'', remoteHostAddr = ''0.0.0.0'', mask = ''''\<rparr>)"
  using C8_flag_is_inactive [of DoorOpened "''1''" True "isoDate 0" 1704110400000
      "\<lparr>channelID = Some (JNum 1), eventType = Some ''AccessControllerEvent'',
        eventState = Some ''inactive'', dateTime = Some ''2024-01-01T12:00:00Z'',
        AccessControllerEvent = Some \<lparr>majorEventType = Some (JNum 5), subEventType = Some (JNum 25)\<rparr>\<rparr>"
      DoorOpened "''1''" False None
      "\<lparr>major = 5, minor = 25, time = ''2024-01-01T12:00:00Z'', remoteHostAddr = ''0.0.0.0'', mask = ''''\<rparr>"]
  by (simp add: processAcsEvent_def processAlertStreamEvent_def Let_def numberToString_evals
      EventCodeMap_def tooOld_iff convertDeviceTimeToUTC_def isoDate_noon_Z orElse_def
      toString_def template_def)

text \<open>
  The claim as the spec words it fails: a fresh entry of the polled log, and a frame of the
  alert stream in the state \<^verbatim>\<open>active\<close>, are both delivered with the boolean \<open>False\<close>,
  where the claim has \<open>active = true\<close> in that position.
\<close>

theorem C8_active_position_counterexample:
  "processAcsEvent (isoDate 0) 1704110400000 None
       \<lparr>major = 5, minor = 25, time = ''2024-01-01T12:00:00Z'', remoteHostAddr = ''0.0.0.0'', mask = ''''\<rparr>
     = [Emit DoorOpened ''1'' False]
   \<and> processAlertStreamEvent (isoDate 0) 1704110400000
       \<lparr>channelID = Some (JNum 1), eventType = Some ''AccessControllerEvent'',
        eventState = Some ''active'', dateTime = Some ''2024-01-01T12:00:00Z'',
        AccessControllerEvent = Some \<lparr>majorEventType = Some (JNum 5), subEventType = Some (JNum 25)\<rparr>\<rparr>
     = [Emit DoorOpened ''1'' False]"
  by (simp add: processAcsEvent_def processAlertStreamEvent_def Let_def numberToString_evals
      EventCodeMap_def tooOld_iff convertDeviceTimeToUTC_def isoDate_noon_Z orElse_def
      toString_def template_def)

subsection \<open>The watermark of the ACS poller\<close>

text \<open>
  C1 at two inputs, on a host in UTC. The watermark filter of \<^verbatim>\<open>pollAndProcessAcsEvents\<close>
  reads the entry's time with \<^verbatim>\<open>new Date (eventInfo.time)\<close>, not with
  \<^verbatim>\<open>convertDeviceTimeToUTC\<close> as \<^verbatim>\<open>processAcsEvent\<close> does.

  Device at \<^verbatim>\<open>+03:00\<close>, entry written \<^verbatim>\<open>2024-01-01T12:00:00\<close>, that is 09:00:00 UTC, and
  watermark 09:00:05 UTC: the entry is not newer than the watermark, yet it is processed
  and emitted, and the watermark becomes 12:00:00 UTC.

  Device at \<^verbatim>\<open>-05:00\<close>, the same entry, that is 17:00:00 UTC, and watermark 16:59:55 UTC:
  the entry is newer than the watermark, yet it is skipped and the watermark stays.
\<close>

theorem C1_watermark_ignores_device_timezone:
  "convertDeviceTimeToUTC (isoDate 0) (Some ''+03:00'') ''2024-01-01T12:00:00'' = Some 1704099600000
   \<and> acsPollingCycle (isoDate 0) 1704099610000 (Some ''+03:00'')
        (Inr (Some [\<lparr>major = 5, minor = 25, time = ''2024-01-01T12:00:00'',
                     remoteHostAddr = ''0.0.0.0'', mask = ''''\<rparr>]))
        (Some 1704099605000)
      = ([Emit DoorOpened ''1'' False], Some 1704110400000)
   \<and> convertDeviceTimeToUTC (isoDate 0) (Some ''-05:00'') ''2024-01-01T12:00:00'' = Some 1704128400000
   \<and> acsPollingCycle (isoDate 0) 1704128401000 (Some ''-05:00'')
        (Inr (Some [\<lparr>major = 5, minor = 25, time = ''2024-01-01T12:00:00'',
                     remoteHostAddr = ''0.0.0.0'', mask = ''''\<rparr>]))
        (Some 1704128395000)
      = ([], Some 1704128395000)"
  by (simp add: acsPollingCycle_def pollAndProcessAcsEvents_def processAcsEvent_def Let_def
      numberToString_evals EventCodeMap_def tooOld_iff convertDeviceTimeToUTC_def
      isoDate_noon_local isoDate_noon_plus3 isoDate_noon_minus5 date_le_def date_gt_def)

lemma acsLoop_processed:
  "processed (acsLoop newDate now tz (Some W) es acc)
   = processed acc @ filter (\<lambda>e. \<not> date_le (newDate (time e)) W) es"
  by (induction es arbitrary: acc) (simp_all add: Let_def)

lemma acsLoop_effects:
  "effects (acsLoop newDate now tz (Some W) es acc)
   = effects acc @ concat (map (processAcsEvent newDate now tz)
                             (filter (\<lambda>e. \<not> date_le (newDate (time e)) W) es))"
  by (induction es arbitrary: acc) (simp_all add: Let_def)

lemma acsLoop_latest:
  assumes "\<forall>e \<in> set es. newDate (time e) \<noteq> None"
  shows "latestEventTime (acsLoop newDate now tz (Some (Some w)) es
            (acc\<lparr>latestEventTime := Some (Some m)\<rparr>))
         = Some (Some (Max (insert m {t. \<exists>e \<in> set es. newDate (time e) = Some t \<and> w < t})))"
  using assms
proof (induction es arbitrary: acc m)
  case Nil
  then show ?case by simp
next
  case (Cons e es)
  from Cons.prems obtain t where t: "newDate (time e) = Some t" by auto
  have fin: "finite {t. \<exists>e \<in> set es. newDate (time e) = Some t \<and> w < t}"
    by (rule finite_subset [where B = "(\<lambda>e. the (newDate (time e))) ` set es"]) force+
  have rest: "\<forall>e \<in> set es. newDate (time e) \<noteq> None" using Cons.prems by simp
  show ?case
  proof (cases "w < t")
    case False
    then have "{t'. \<exists>e' \<in> set (e # es). newDate (time e') = Some t' \<and> w < t'}
             = {t'. \<exists>e' \<in> set es. newDate (time e') = Some t' \<and> w < t'}"
      using t by auto
    with False t Cons.IH [OF rest, where acc = acc and m = m] show ?thesis
      by (simp add: date_le_def)
  next
    case True
    then have set_eq: "{t'. \<exists>e' \<in> set (e # es). newDate (time e') = Some t' \<and> w < t'}
             = insert t {t'. \<exists>e' \<in> set es. newDate (time e') = Some t' \<and> w < t'}"
      using t by auto
    let ?acc' = "acc\<lparr>processed := processed acc @ [e],
                      effects := effects acc @ processAcsEvent newDate now tz e\<rparr>"
    have step: "acsLoop newDate now tz (Some (Some w)) (e # es) (acc\<lparr>latestEventTime := Some (Some m)\<rparr>)
              = acsLoop newDate now tz (Some (Some w)) es (?acc'\<lparr>latestEventTime := Some (Some (max m t))\<rparr>)"
      using True t by (simp add: date_le_def date_gt_def Let_def max_def)
    have mx: "Max (insert (max m t) S) = Max (insert m (insert t S))" if "finite S" for S
      using that by (cases "S = {}") (simp_all add: max.assoc)
    show ?thesis
      unfolding step Cons.IH [OF rest, where acc = ?acc' and m = "max m t"] set_eq
      using fin by (simp only: mx)
  qed
qed

lemma acsLoop_latest_start:
  assumes "\<forall>e \<in> set es. newDate (time e) \<noteq> None"
  shows "latestEventTime (acsLoop newDate now tz (Some (Some w)) es
            (acc\<lparr>latestEventTime := None\<rparr>))
         = (if {t. \<exists>e \<in> set es. newDate (time e) = Some t \<and> w < t} = {} then None
            else Some (Some (Max {t. \<exists>e \<in> set es. newDate (time e) = Some t \<and> w < t})))"
  using assms
proof (induction es arbitrary: acc)
  case Nil
  then show ?case by simp
next
  case (Cons e es)
  from Cons.prems obtain t where t: "newDate (time e) = Some t" by auto
  have rest: "\<forall>e \<in> set es. newDate (time e) \<noteq> None" using Cons.prems by simp
  show ?case
  proof (cases "w < t")
    case False
    then have "{t'. \<exists>e' \<in> set (e # es). newDate (time e') = Some t' \<and> w < t'}
             = {t'. \<exists>e' \<in> set es. newDate (time e') = Some t' \<and> w < t'}"
      using t by auto
    with False t Cons.IH [OF rest, where acc = acc] show ?thesis
      by (simp add: date_le_def)
  next
    case True
    then have set_eq: "{t'. \<exists>e' \<in> set (e # es). newDate (time e') = Some t' \<and> w < t'}
             = insert t {t'. \<exists>e' \<in> set es. newDate (time e') = Some t' \<and> w < t'}"
      using t by auto
    let ?acc' = "acc\<lparr>processed := processed acc @ [e],
                      effects := effects acc @ processAcsEvent newDate now tz e\<rparr>"
    have step: "acsLoop newDate now tz (Some (Some w)) (e # es) (acc\<lparr>latestEventTime := None\<rparr>)
              = acsLoop newDate now tz (Some (Some w)) es (?acc'\<lparr>latestEventTime := Some (Some t)\<rparr>)"
      using True t by (simp add: date_le_def Let_def)
    show ?thesis
      unfolding step acsLoop_latest [OF rest, where acc = ?acc' and m = t] set_eq
      by simp
  qed
qed

text \<open>
  What one polling cycle does on the code, when every entry's time parses and the cycle
  does not overlap the next: the filter and
  the watermark work on the time as the host's Date constructor reads the device string,
  \<^verbatim>\<open>new Date (eventInfo.time)\<close>. Entries read as later than the watermark \<open>w\<close> are
  processed, in order; the new watermark is the latest of those readings, or \<open>w\<close> when
  there is none, and it is never below \<open>w\<close>.
\<close>

lemma acsPollingCycle_host_time:
  assumes "\<forall>e \<in> set es. newDate (time e) \<noteq> None"
  shows "acsPollingCycle newDate now tz (Inr (Some es)) (Some w)
         = (concat (map (processAcsEvent newDate now tz)
                      (filter (\<lambda>e. w < the (newDate (time e))) es)),
            Some (Max (insert w {t. \<exists>e \<in> set es. newDate (time e) = Some t \<and> w < t})))"
proof -
  let ?S = "{t. \<exists>e \<in> set es. newDate (time e) = Some t \<and> w < t}"
  let ?acc0 = "\<lparr>processed = [], effects = [], latestEventTime = None\<rparr>"
  have fin: "finite ?S"
    by (rule finite_subset [where B = "(\<lambda>e. the (newDate (time e))) ` set es"]) force+
  have flt: "filter (\<lambda>e. \<not> date_le (newDate (time e)) (Some w)) es
           = filter (\<lambda>e. w < the (newDate (time e))) es"
    using assms by (intro filter_cong) (auto simp: date_le_def)
  have acc0: "?acc0 = ?acc0\<lparr>latestEventTime := None\<rparr>" by simp
  have latest: "latestEventTime (acsLoop newDate now tz (Some (Some w)) es ?acc0)
              = (if ?S = {} then None else Some (Some (Max ?S)))"
    by (subst acc0) (rule acsLoop_latest_start [OF assms])
  have mx: "Max (insert w ?S) = Max ?S" if "?S \<noteq> {}"
  proof -
    from that obtain t where "t \<in> ?S" by blast
    then have "w < t" by simp
    moreover have "t \<le> Max ?S" using fin \<open>t \<in> ?S\<close> by (rule Max_ge)
    ultimately show ?thesis using fin that by (simp add: max_def)
  qed
  let ?r = "acsLoop newDate now tz (Some (Some w)) es ?acc0"
  have cyc: "acsPollingCycle newDate now tz (Inr (Some es)) (Some w)
           = (effects ?r, (case latestEventTime ?r of Some t \<Rightarrow> t | None \<Rightarrow> Some w))"
    by (simp add: acsPollingCycle_def pollAndProcessAcsEvents_def Let_def split: option.splits)
  have eff: "effects ?r = concat (map (processAcsEvent newDate now tz)
                                   (filter (\<lambda>e. w < the (newDate (time e))) es))"
    by (simp add: acsLoop_effects flt)
  have wm: "(case latestEventTime ?r of Some t \<Rightarrow> t | None \<Rightarrow> Some w)
          = Some (Max (insert w ?S))"
  proof (cases "?S = {}")
    case True
    have "Max (insert w ?S) = w"
      by (simp only: True Max_singleton)
    moreover have "latestEventTime ?r = None"
      by (simp only: latest True simp_thms if_True)
    ultimately show ?thesis
      by (simp only: option.case)
  next
    case False
    have "latestEventTime ?r = Some (Some (Max ?S))"
      by (simp only: latest False if_False)
    with mx [OF False] show ?thesis
      by (simp only: option.case)
  qed
  show ?thesis
    unfolding cyc eff wm ..
qed

lemma acsPollingCycle_watermark_monotone:
  assumes "\<forall>e \<in> set es. newDate (time e) \<noteq> None"
  shows "\<exists>w'. snd (acsPollingCycle newDate now tz (Inr (Some es)) (Some w)) = Some w' \<and> w \<le> w'"
proof -
  have fin: "finite {t. \<exists>e \<in> set es. newDate (time e) = Some t \<and> w < t}"
    by (rule finite_subset [where B = "(\<lambda>e. the (newDate (time e))) ` set es"]) force+
  then show ?thesis
    unfolding acsPollingCycle_host_time [OF assms] by simp
qed

subsection \<open>The call status poller\<close>

lemma onCallState_edge: "onCallState p c = (edgeSignal p c, c)"
  by (auto simp: onCallState_def edgeSignal_def)

lemma callStatusPolling_edges:
  "callStatusPolling l cs
   = (concat (map (\<lambda>(p, c). edgeSignal p c) (zip (l # cs) cs)), last (l # cs))"
  by (induction cs arbitrary: l) (simp_all add: onCallState_edge)

text \<open>
  C5. The call status poller is edge-triggered. Over any sequence \<open>cs\<close> of polled call
  states, starting from the remembered state \<open>l\<close>, what is emitted is exactly the
  sequence of the spec's edge signals of the successive pairs (previous, current): a
  TalkInvite for each pair (idle, ringing), a TalkHangup for each pair (ringing, idle),
  nothing else; the remembered state ends as the last polled one. The sequence idle,
  ringing, ringing, idle emits one invite and one hangup.
\<close>

theorem C5_edge_triggered:
  "fst (callStatusPolling l cs) = concat (map (\<lambda>(p, c). edgeSignal p c) (zip (l # cs) cs))
   \<and> snd (callStatusPolling l cs) = last (l # cs)
   \<and> fst (callStatusPolling ''idle'' [''idle'', ''ringing'', ''ringing'', ''idle''])
       = [Emit TalkInvite ''1'' False, Emit TalkHangup ''1'' False]"
  by (simp add: callStatusPolling_edges edgeSignal_def del: callStatusPolling.simps)

text \<open>
  C10. \<^verbatim>\<open>getCallStatus\<close> returns a status on every input; when the request or the parse
  fails it is the idle status. A tick whose poll failed while the remembered state is
  \<^verbatim>\<open>ringing\<close> therefore emits TalkHangup and remembers \<^verbatim>\<open>idle\<close>, exactly as a tick
  whose poll answered \<^verbatim>\<open>idle\<close>.
\<close>

theorem C10_failed_poll_is_hangup:
  "getCallStatus (Inl e) = \<lparr>isRinging = False, callState = ''idle''\<rparr>
   \<and> callStatusTick ''ringing'' (Inl e) = ([Emit TalkHangup ''1'' False], ''idle'')
   \<and> callStatusTick ''ringing'' (Inl e) = callStatusTick ''ringing'' (Inr (Some (Some ''idle'')))"
  by (simp add: getCallStatus_def callStatusTick_def onCallState_def orElse_def)

subsection \<open>Single-flight loading of the capabilities\<close>

lemma loadCalls_inflight:
  "\<not> capabilitiesLoaded s \<Longrightarrow> loadCapabilitiesPromise s = Some p
   \<Longrightarrow> loadCalls n s = (replicate n (Follows p), s)"
  by (induction n) (simp_all add: loadDoorCapabilities_def)

lemma loadCalls_fresh:
  assumes "\<not> capabilitiesLoaded s" and "loadCapabilitiesPromise s = None"
  shows "loadCalls (Suc n) s
         = (replicate (Suc n) (Follows (requests s)),
            s\<lparr>loadCapabilitiesPromise := Some (requests s), requests := Suc (requests s)\<rparr>)"
  using assms by (simp add: loadDoorCapabilities_def Let_def loadCalls_inflight)

lemma performCapabilitiesLoad_settles:
  "\<exists>outcome. settled (performCapabilitiesLoad parseInt p response s) p = Some outcome"
  by (auto simp: performCapabilitiesLoad_def Let_def
      split: sum.splits xmlElement.splits option.splits)

lemma performCapabilitiesLoad_failure:
  "performCapabilitiesLoad parseInt p (Inl e) s = s\<lparr>settled := (settled s)(p \<mapsto> Some e)\<rparr>"
  by (simp add: performCapabilitiesLoad_def)

text \<open>
  C4. Capability loading is single-flight. From a store that is neither loaded nor
  loading, \<open>n > 0\<close> calls of \<^verbatim>\<open>loadDoorCapabilities\<close> that arrive before the response
  issue exactly one request, and every caller's promise follows the promise of that one
  request; when the response arrives every caller observes the same settled outcome, and
  for a failed request each of them observes the rejection with that very error. After the
  starter's \<^verbatim>\<open>finally\<close> block the store is not loaded and a further call issues a
  second request: a failure does not poison the store.
\<close>

theorem C4_single_flight:
  assumes "\<not> capabilitiesLoaded s" and "loadCapabilitiesPromise s = None" and "0 < n"
  shows "fst (loadCalls n s) = replicate n (Follows (requests s))
     \<and> requests (snd (loadCalls n s)) = Suc (requests s)
     \<and> (\<exists>outcome. map (observed (performCapabilitiesLoad parseInt (requests s) response
                                    (snd (loadCalls n s))))
                        (fst (loadCalls n s))
                    = replicate n (Some outcome))
     \<and> map (observed (performCapabilitiesLoad parseInt (requests s) (Inl e) (snd (loadCalls n s))))
           (fst (loadCalls n s))
         = replicate n (Some (Some e))
     \<and> \<not> capabilitiesLoaded (loadDoorCapabilities_finally
            (performCapabilitiesLoad parseInt (requests s) (Inl e) (snd (loadCalls n s))))
     \<and> fst (loadDoorCapabilities (loadDoorCapabilities_finally
            (performCapabilitiesLoad parseInt (requests s) (Inl e) (snd (loadCalls n s)))))
         = Follows (Suc (requests s))
     \<and> requests (snd (loadDoorCapabilities (loadDoorCapabilities_finally
            (performCapabilitiesLoad parseInt (requests s) (Inl e) (snd (loadCalls n s))))))
         = Suc (Suc (requests s))"
proof -
  from \<open>0 < n\<close> obtain m where n: "n = Suc m" by (cases n) auto
  let ?s1 = "s\<lparr>loadCapabilitiesPromise := Some (requests s), requests := Suc (requests s)\<rparr>"
  have calls: "loadCalls n s = (replicate n (Follows (requests s)), ?s1)"
    unfolding n using assms(1,2) by (rule loadCalls_fresh)
  obtain outcome where
    out: "settled (performCapabilitiesLoad parseInt (requests s) response ?s1) (requests s)
          = Some outcome"
    using performCapabilitiesLoad_settles by blast
  have same: "map (observed (performCapabilitiesLoad parseInt (requests s) response ?s1))
                (replicate n (Follows (requests s))) = replicate n (Some outcome)"
    by (simp add: observed_def out)
  have fail: "map (observed (performCapabilitiesLoad parseInt (requests s) (Inl e) ?s1))
                (replicate n (Follows (requests s))) = replicate n (Some (Some e))"
    by (simp add: observed_def performCapabilitiesLoad_failure)
  have retry: "loadDoorCapabilities (loadDoorCapabilities_finally
                 (performCapabilitiesLoad parseInt (requests s) (Inl e) ?s1))
               = (Follows (Suc (requests s)),
                  (loadDoorCapabilities_finally
                     (performCapabilitiesLoad parseInt (requests s) (Inl e) ?s1))
                  \<lparr>loadCapabilitiesPromise := Some (Suc (requests s)),
                   requests := Suc (Suc (requests s))\<rparr>)"
    using assms(1)
    by (simp add: loadDoorCapabilities_def loadDoorCapabilities_finally_def
        performCapabilitiesLoad_failure Let_def)
  have notLoaded: "\<not> capabilitiesLoaded (loadDoorCapabilities_finally
            (performCapabilitiesLoad parseInt (requests s) (Inl e) ?s1))"
    using assms(1) by (simp add: loadDoorCapabilities_finally_def performCapabilitiesLoad_failure)
  show ?thesis
    unfolding calls fst_conv snd_conv retry
    using same fail notLoaded by auto
qed

theorem C4_single_flight_witness:
  "\<not> capabilitiesLoaded newCapabilityStore \<and> loadCapabilitiesPromise newCapabilityStore = None
   \<and> (0::nat) < 3
   \<and> fst (loadCalls 3 newCapabilityStore) = [Follows 0, Follows 0, Follows 0]
   \<and> requests (snd (loadCalls 3 newCapabilityStore)) = 1
   \<and> map (observed (performCapabilitiesLoad (\<lambda>s. None) 0 (Inl (Error ''ECONNREFUSED''))
                      (snd (loadCalls 3 newCapabilityStore))))
         (fst (loadCalls 3 newCapabilityStore))
       = [Some (Some (Error ''ECONNREFUSED'')), Some (Some (Error ''ECONNREFUSED'')),
          Some (Some (Error ''ECONNREFUSED''))]
   \<and> fst (loadDoorCapabilities (loadDoorCapabilities_finally
            (performCapabilitiesLoad (\<lambda>s. None) 0 (Inl (Error ''ECONNREFUSED''))
               (snd (loadCalls 3 newCapabilityStore)))))
       = Follows 1
   \<and> requests (snd (loadDoorCapabilities (loadDoorCapabilities_finally
            (performCapabilitiesLoad (\<lambda>s. None) 0 (Inl (Error ''ECONNREFUSED''))
               (snd (loadCalls 3 newCapabilityStore))))))
       = 2"
proof -
  have h1: "\<not> capabilitiesLoaded newCapabilityStore" by (simp add: newCapabilityStore_def)
  have h2: "loadCapabilitiesPromise newCapabilityStore = None" by (simp add: newCapabilityStore_def)
  have h3: "(0::nat) < 3" by simp
  have r: "requests newCapabilityStore = 0" by (simp add: newCapabilityStore_def)
  show ?thesis
    using C4_single_flight [OF h1 h2 h3, of "\<lambda>s. None" "Inl (Error ''ECONNREFUSED'')"
        "Error ''ECONNREFUSED''"] h1 h2
    by (auto simp add: r numeral_3_eq_3 simp del: loadCalls.simps)
qed

subsection \<open>Fallback to the cache\<close>

lemma getDoorOpenDuration_reached:
  assumes "ensureCapabilities awaitLoad s = Inr s'" and "\<not> doorOutOfRange parseInt s' doorNo'"
  shows "getDoorOpenDuration parseInt openDurationOf awaitLoad s doorNo' (Inl e) store
      = (case store (''doorOpenDuration_'' @ doorNo') of
           None \<Rightarrow> (Inl e, store)
         | Some xml \<Rightarrow> if xml = [] then (Inl e, store) else (openDurationOf xml, store))"
  using assms by (simp add: getDoorOpenDuration_def Let_def)

lemma getDoorOpenDuration_not_reached:
  "ensureCapabilities awaitLoad s = Inl e'
   \<Longrightarrow> getDoorOpenDuration parseInt openDurationOf awaitLoad s doorNo' response store
       = (Inl e', store)"
  "ensureCapabilities awaitLoad s = Inr s' \<Longrightarrow> doorOutOfRange parseInt s' doorNo'
   \<Longrightarrow> getDoorOpenDuration parseInt openDurationOf awaitLoad s doorNo' response store
       = (Inl (outOfRangeError s' doorNo'), store)"
  by (simp_all add: getDoorOpenDuration_def)

lemma getVideoChannels_failed:
  "getVideoChannels stringify parse (Inl e) store
   = (case store ''channelsJSON'' of
        None \<Rightarrow> (Inl e, store)
      | Some raw \<Rightarrow> if raw = [] then (Inl e, store)
                     else (map_sum (\<lambda>x. x) channelMap (parse raw), store))"
  by (auto simp: getVideoChannels_def Let_def split: option.splits sum.splits)

text \<open>
  C9, as the code has it. Once the live request of a fallback-to-cache operation is
  reached and fails with \<open>e\<close>: with a non-empty cached value the operation goes on with
  that value, exactly as the tail of the function would on a live body; with no cached
  value, or with the empty string cached, it rethrows \<open>e\<close> itself. The storage is left
  as it was. The channel-list lookup always reaches its request. The door open-duration
  lookup reaches it only when the capabilities are loaded, or their awaited load
  succeeds, and the door number passes the range check: when the load rejects with
  \<open>e'\<close>, or the door number is out of range, that error is thrown before the request,
  whatever the request would answer and whatever the cache holds.
\<close>

theorem C9_fallback_to_cache:
  "(ensureCapabilities awaitLoad s = Inr s' \<and> \<not> doorOutOfRange parseInt s' doorNo'
      \<and> store (''doorOpenDuration_'' @ doorNo') = Some xml \<and> xml \<noteq> []
      \<longrightarrow> getDoorOpenDuration parseInt openDurationOf awaitLoad s doorNo' (Inl e) store
          = (openDurationOf xml, store))
   \<and> (ensureCapabilities awaitLoad s = Inr s' \<and> \<not> doorOutOfRange parseInt s' doorNo'
      \<and> (store (''doorOpenDuration_'' @ doorNo') = None
           \<or> store (''doorOpenDuration_'' @ doorNo') = Some [])
      \<longrightarrow> getDoorOpenDuration parseInt openDurationOf awaitLoad s doorNo' (Inl e) store
          = (Inl e, store))
   \<and> (ensureCapabilities awaitLoad s = Inl e'
      \<longrightarrow> getDoorOpenDuration parseInt openDurationOf awaitLoad s doorNo' response store
          = (Inl e', store))
   \<and> (ensureCapabilities awaitLoad s = Inr s' \<and> doorOutOfRange parseInt s' doorNo'
      \<longrightarrow> getDoorOpenDuration parseInt openDurationOf awaitLoad s doorNo' response store
          = (Inl (outOfRangeError s' doorNo'), store))
   \<and> (store ''channelsJSON'' = Some raw \<and> raw \<noteq> []
      \<longrightarrow> getVideoChannels stringify parse (Inl e) store
          = (map_sum (\<lambda>x. x) channelMap (parse raw), store))
   \<and> (store ''channelsJSON'' = None \<or> store ''channelsJSON'' = Some []
      \<longrightarrow> getVideoChannels stringify parse (Inl e) store = (Inl e, store))"
proof (intro conjI impI)
  assume "ensureCapabilities awaitLoad s = Inr s' \<and> \<not> doorOutOfRange parseInt s' doorNo'
      \<and> store (''doorOpenDuration_'' @ doorNo') = Some xml \<and> xml \<noteq> []"
  then show "getDoorOpenDuration parseInt openDurationOf awaitLoad s doorNo' (Inl e) store
          = (openDurationOf xml, store)"
    by (simp add: getDoorOpenDuration_reached [where s' = s'])
next
  assume "ensureCapabilities awaitLoad s = Inr s' \<and> \<not> doorOutOfRange parseInt s' doorNo'
      \<and> (store (''doorOpenDuration_'' @ doorNo') = None
           \<or> store (''doorOpenDuration_'' @ doorNo') = Some [])"
  then show "getDoorOpenDuration parseInt openDurationOf awaitLoad s doorNo' (Inl e) store
          = (Inl e, store)"
    by (auto simp: getDoorOpenDuration_reached [where s' = s'])
next
  assume "ensureCapabilities awaitLoad s = Inl e'"
  then show "getDoorOpenDuration parseInt openDurationOf awaitLoad s doorNo' response store
          = (Inl e', store)"
    by (rule getDoorOpenDuration_not_reached(1))
next
  assume "ensureCapabilities awaitLoad s = Inr s' \<and> doorOutOfRange parseInt s' doorNo'"
  then show "getDoorOpenDuration parseInt openDurationOf awaitLoad s doorNo' response store
          = (Inl (outOfRangeError s' doorNo'), store)"
    by (simp add: getDoorOpenDuration_not_reached(2))
next
  assume "store ''channelsJSON'' = Some raw \<and> raw \<noteq> []"
  then show "getVideoChannels stringify parse (Inl e) store
          = (map_sum (\<lambda>x. x) channelMap (parse raw), store)"
    by (simp add: getVideoChannels_failed)
next
  assume "store ''channelsJSON'' = None \<or> store ''channelsJSON'' = Some []"
  then show "getVideoChannels stringify parse (Inl e) store = (Inl e, store)"
    by (auto simp: getVideoChannels_failed)
qed

theorem C9_fallback_to_cache_witness:
  "getDoorOpenDuration (\<lambda>s. Some 1) sampleOpenDurationOf (\<lambda>s. Inr s)
            (newCapabilityStore\<lparr>capabilitiesLoaded := True\<rparr>) ''1''
            (Inl (Error ''ETIMEDOUT''))
            [''doorOpenDuration_1'' \<mapsto> ''<DoorParam><openDuration>5</openDuration></DoorParam>'',
             ''channelsJSON'' \<mapsto> sampleChannelsJSON]
     = (Inr (Some 5),
        [''doorOpenDuration_1'' \<mapsto> ''<DoorParam><openDuration>5</openDuration></DoorParam>'',
         ''channelsJSON'' \<mapsto> sampleChannelsJSON])
   \<and> getDoorOpenDuration (\<lambda>s. Some 1) sampleOpenDurationOf (\<lambda>s. Inr s)
            (newCapabilityStore\<lparr>capabilitiesLoaded := True\<rparr>) ''1''
            (Inl (Error ''ETIMEDOUT'')) Map.empty
     = (Inl (Error ''ETIMEDOUT''), Map.empty)
   \<and> getDoorOpenDuration (\<lambda>s. Some 1) sampleOpenDurationOf
            (\<lambda>s. Inl (Error ''ECONNREFUSED'')) newCapabilityStore ''1''
            (Inl (Error ''ETIMEDOUT''))
            [''doorOpenDuration_1'' \<mapsto> ''<DoorParam><openDuration>5</openDuration></DoorParam>'',
             ''channelsJSON'' \<mapsto> sampleChannelsJSON]
     = (Inl (Error ''ECONNREFUSED''),
        [''doorOpenDuration_1'' \<mapsto> ''<DoorParam><openDuration>5</openDuration></DoorParam>'',
         ''channelsJSON'' \<mapsto> sampleChannelsJSON])
   \<and> getDoorOpenDuration (\<lambda>s. Some 7) sampleOpenDurationOf (\<lambda>s. Inr s)
            (newCapabilityStore\<lparr>capabilitiesLoaded := True\<rparr>) ''7''
            (Inl (Error ''ETIMEDOUT''))
            [''doorOpenDuration_1'' \<mapsto> ''<DoorParam><openDuration>5</openDuration></DoorParam>'',
             ''channelsJSON'' \<mapsto> sampleChannelsJSON]
     = (Inl (Error ''Door number 7 is out of range. Valid range: 1-1''),
        [''doorOpenDuration_1'' \<mapsto> ''<DoorParam><openDuration>5</openDuration></DoorParam>'',
         ''channelsJSON'' \<mapsto> sampleChannelsJSON])
   \<and> getVideoChannels (\<lambda>cs. sampleChannelsJSON) sampleParse (Inl (Error ''ETIMEDOUT''))
            [''doorOpenDuration_1'' \<mapsto> ''<DoorParam><openDuration>5</openDuration></DoorParam>'',
             ''channelsJSON'' \<mapsto> sampleChannelsJSON]
     = (Inr [''101'' \<mapsto> \<lparr>id' = ''101''\<rparr>],
        [''doorOpenDuration_1'' \<mapsto> ''<DoorParam><openDuration>5</openDuration></DoorParam>'',
         ''channelsJSON'' \<mapsto> sampleChannelsJSON])
   \<and> getVideoChannels (\<lambda>cs. sampleChannelsJSON) sampleParse (Inl (Error ''ETIMEDOUT''))
            Map.empty
     = (Inl (Error ''ETIMEDOUT''), Map.empty)"
proof -
  let ?s = "newCapabilityStore\<lparr>capabilitiesLoaded := True\<rparr>"
  let ?x = "''<DoorParam><openDuration>5</openDuration></DoorParam>''"
  let ?st = "[''doorOpenDuration_1'' \<mapsto> ?x, ''channelsJSON'' \<mapsto> sampleChannelsJSON]"
  have ne: "sampleChannelsJSON \<noteq> []"
    by (simp add: sampleChannelsJSON_def)
  have 1: "getDoorOpenDuration (\<lambda>s. Some 1) sampleOpenDurationOf (\<lambda>s. Inr s) ?s ''1''
             (Inl (Error ''ETIMEDOUT'')) ?st
           = (sampleOpenDurationOf ?x, ?st)
         \<and> getVideoChannels (\<lambda>cs. sampleChannelsJSON) sampleParse (Inl (Error ''ETIMEDOUT'')) ?st
           = (map_sum (\<lambda>x. x) channelMap (sampleParse sampleChannelsJSON), ?st)"
    using C9_fallback_to_cache [where s = ?s and s' = ?s and awaitLoad = "\<lambda>s. Inr s"
        and parseInt = "\<lambda>s. Some 1" and doorNo' = "''1''"
        and store = ?st and xml = ?x and raw = sampleChannelsJSON
        and openDurationOf = sampleOpenDurationOf and e = "Error ''ETIMEDOUT''"
        and stringify = "\<lambda>cs. sampleChannelsJSON" and parse = sampleParse] ne
    by (simp add: newCapabilityStore_def ensureCapabilities_def doorOutOfRange_def)
  have 2: "getDoorOpenDuration (\<lambda>s. Some 1) sampleOpenDurationOf (\<lambda>s. Inr s) ?s ''1''
             (Inl (Error ''ETIMEDOUT'')) Map.empty
           = (Inl (Error ''ETIMEDOUT''), Map.empty)
         \<and> getVideoChannels (\<lambda>cs. sampleChannelsJSON) sampleParse (Inl (Error ''ETIMEDOUT''))
             Map.empty
           = (Inl (Error ''ETIMEDOUT''), Map.empty)"
    using C9_fallback_to_cache [where s = ?s and s' = ?s and awaitLoad = "\<lambda>s. Inr s"
        and parseInt = "\<lambda>s. Some 1" and doorNo' = "''1''"
        and store = "Map.empty"
        and openDurationOf = sampleOpenDurationOf and e = "Error ''ETIMEDOUT''"
        and stringify = "\<lambda>cs. sampleChannelsJSON" and parse = sampleParse]
    by (simp add: newCapabilityStore_def ensureCapabilities_def doorOutOfRange_def)
  have 3: "getDoorOpenDuration (\<lambda>s. Some 1) sampleOpenDurationOf
             (\<lambda>s. Inl (Error ''ECONNREFUSED'')) newCapabilityStore ''1''
             (Inl (Error ''ETIMEDOUT'')) ?st
           = (Inl (Error ''ECONNREFUSED''), ?st)"
    using C9_fallback_to_cache [where s = newCapabilityStore
        and awaitLoad = "\<lambda>s. Inl (Error ''ECONNREFUSED'')" and e' = "Error ''ECONNREFUSED''"
        and parseInt = "\<lambda>s. Some 1" and doorNo' = "''1''"
        and store = ?st and response = "Inl (Error ''ETIMEDOUT'')"
        and openDurationOf = sampleOpenDurationOf
        and stringify = "\<lambda>cs. sampleChannelsJSON" and parse = sampleParse]
    by (simp add: newCapabilityStore_def ensureCapabilities_def)
  have 4: "getDoorOpenDuration (\<lambda>s. Some 7) sampleOpenDurationOf (\<lambda>s. Inr s) ?s ''7''
             (Inl (Error ''ETIMEDOUT'')) ?st
           = (Inl (outOfRangeError ?s ''7''), ?st)"
    using C9_fallback_to_cache [where s = ?s and s' = ?s and awaitLoad = "\<lambda>s. Inr s"
        and parseInt = "\<lambda>s. Some 7" and doorNo' = "''7''"
        and store = ?st and response = "Inl (Error ''ETIMEDOUT'')"
        and openDurationOf = sampleOpenDurationOf
        and stringify = "\<lambda>cs. sampleChannelsJSON" and parse = sampleParse]
    by (simp add: newCapabilityStore_def ensureCapabilities_def doorOutOfRange_def)
  have msg: "outOfRangeError ?s ''7'' = Error ''Door number 7 is out of range. Valid range: 1-1''"
    by (simp add: outOfRangeError_def newCapabilityStore_def numberToString_1)
  show ?thesis
    using 1 2 3 4 by (simp add: msg sampleOpenDurationOf_def sampleParse_def channelMap_def)
qed

text \<open>
  The claim as the spec words it fails at two inputs. Where the cached value is the empty
  string, which \<^verbatim>\<open>if (!xml)\<close> takes for no value: the cache of door 1 holds a value, the
  live request fails, and the operation rethrows the request's error instead of going on
  with the cached value. And where the capabilities are not loaded and their load fails:
  the cache of door 1 holds an open duration of 5 seconds, yet the operation throws the
  load's error, before the request for the door, and does not go on with the cached value.
\<close>

theorem C9_empty_cached_value_counterexample:
  "[''doorOpenDuration_1'' \<mapsto> ''''] ''doorOpenDuration_1'' = Some ''''
   \<and> fst (getDoorOpenDuration (\<lambda>s. Some 1) sampleOpenDurationOf (\<lambda>s. Inr s)
            (newCapabilityStore\<lparr>capabilitiesLoaded := True\<rparr>) ''1''
            (Inl (Error ''ETIMEDOUT'')) [''doorOpenDuration_1'' \<mapsto> ''''])
       = Inl (Error ''ETIMEDOUT'')
   \<and> fst (getDoorOpenDuration (\<lambda>s. Some 1) sampleOpenDurationOf (\<lambda>s. Inr s)
            (newCapabilityStore\<lparr>capabilitiesLoaded := True\<rparr>) ''1''
            (Inl (Error ''ETIMEDOUT'')) [''doorOpenDuration_1'' \<mapsto> ''''])
       \<noteq> sampleOpenDurationOf ''''
   \<and> fst (getDoorOpenDuration (\<lambda>s. Some 1) sampleOpenDurationOf
            (\<lambda>s. Inl (Error ''ECONNREFUSED'')) newCapabilityStore ''1''
            (Inl (Error ''ETIMEDOUT''))
            [''doorOpenDuration_1'' \<mapsto> ''<DoorParam><openDuration>5</openDuration></DoorParam>''])
       = Inl (Error ''ECONNREFUSED'')
   \<and> sampleOpenDurationOf ''<DoorParam><openDuration>5</openDuration></DoorParam>''
       = Inr (Some 5)"
  by (simp add: getDoorOpenDuration_def ensureCapabilities_def doorOutOfRange_def
      newCapabilityStore_def sampleOpenDurationOf_def)

subsection \<open>The event handler of the doorbell\<close>

text \<open>
  C6 at a failing input. Two Unlock events for door 1 are delivered one after the other
  (two entries of one polled batch), so the second handler call runs before the first
  one's \<^verbatim>\<open>getDoorOpenDuration\<close> has settled: its \<^verbatim>\<open>clearTimeout\<close> finds no timer yet. Both
  calls then resume with the duration 5 and each sets an auto-lock timer of 5000 ms; only
  the second handle is kept, the first timer can no longer be cancelled, and both fire.
\<close>

theorem C6_two_unlocks_two_relocks:
  "timers (run [OnEvent Unlock ''1'', OnEvent Unlock ''1'',
                ResumeUnlock 0 (Inr (Some 5)), ResumeUnlock 0 (Inr (Some 5))] cam)
     = [\<lparr>timerId = 0, action = AutoLock ''cam-lock-1'', delay = Some 5000\<rparr>,
        \<lparr>timerId = 1, action = StopRinging, delay = Some 3000\<rparr>,
        \<lparr>timerId = 2, action = AutoLock ''cam-lock-1'', delay = Some 5000\<rparr>,
        \<lparr>timerId = 3, action = StopRinging, delay = Some 3000\<rparr>]
   \<and> doorOpenDurationTimeout (run [OnEvent Unlock ''1'', OnEvent Unlock ''1'',
                ResumeUnlock 0 (Inr (Some 5)), ResumeUnlock 0 (Inr (Some 5))] cam) = Some 2
   \<and> pendingAutoLocks (run [OnEvent Unlock ''1'', OnEvent Unlock ''1'',
                ResumeUnlock 0 (Inr (Some 5)), ResumeUnlock 0 (Inr (Some 5)), Fire 0] cam)
     = [\<lparr>timerId = 2, action = AutoLock ''cam-lock-1'', delay = Some 5000\<rparr>]
   \<and> pendingAutoLocks (run [OnEvent Unlock ''1'', OnEvent Unlock ''1'',
                ResumeUnlock 0 (Inr (Some 5)), ResumeUnlock 0 (Inr (Some 5)), Fire 0, Fire 2] cam)
     = []"
  by (simp add: run_def onEvent_def resumeUnlock_def fire_def setTimeout_def clearTimeout_def
      pendingAutoLocks_def cam_def Let_def OPEN_LOCK_AUDIO_NOTIFY_DURASTION_def)

text \<open>
  C7 at a failing input. The handler has no branch for DoorAbnormalOpened: the event
  leaves every state as it is, so the provisioned entry sensor of door 1 is not set to
  Jammed. DoorOpened assigns the sensor's \<^verbatim>\<open>binaryState\<close>; its \<^verbatim>\<open>entryOpen\<close> stays as it
  was.
\<close>

theorem C7_abnormal_open_ignored:
  "onEvent DoorAbnormalOpened doorNo' d = d
   \<and> entrySensors (onEvent DoorAbnormalOpened ''1'' cam) ''cam-entry-1''
       = Some \<lparr>entryOpen = EntryOpen False, sensorBinaryState = None\<rparr>
   \<and> entrySensors (onEvent DoorOpened ''1'' cam) ''cam-entry-1''
       = Some \<lparr>entryOpen = EntryOpen False, sensorBinaryState = Some True\<rparr>"
  by (simp add: onEvent_def cam_def Let_def)

lemma pendingAutoLocks_clear:
  assumes "\<forall>t \<in> set (pendingAutoLocks d). h = Some (timerId t)"
  shows "pendingAutoLocks (clearTimeout h d) = []"
proof (cases h)
  case None
  with assms show ?thesis
    by (cases "pendingAutoLocks d") (auto simp: clearTimeout_def)
next
  case (Some i)
  with assms show ?thesis
    by (auto simp: clearTimeout_def pendingAutoLocks_def filter_empty_conv)
qed

lemma clearTimeout_keeps:
  "nextTimerId (clearTimeout h d) = nextTimerId d"
  "suspended (clearTimeout h d) = suspended d"
  by (simp_all add: clearTimeout_def split: option.splits)

lemma onEvent_Unlock:
  assumes "locks d (nativeId d @ ''-lock-'' @ doorNo') = Some lock"
  shows "onEvent Unlock doorNo' d
         = (clearTimeout (doorOpenDurationTimeout d)
              (d\<lparr>locks := (locks d)(nativeId d @ ''-lock-'' @ doorNo' \<mapsto> lock\<lparr>lockState := Unlocked\<rparr>)\<rparr>))
           \<lparr>suspended := suspended d @ [(doorNo', nativeId d @ ''-lock-'' @ doorNo')]\<rparr>"
  using assms by (simp add: onEvent_def Let_def clearTimeout_def split: option.splits)

lemma resumeUnlock_single:
  assumes "pendingAutoLocks d = []"
  shows "pendingAutoLocks (resumeUnlock 0 (Inr D) (d\<lparr>suspended := [(n, l)]\<rparr>))
         = [\<lparr>timerId = nextTimerId d, action = AutoLock l, delay = map_option (\<lambda>n. n * 1000) D\<rparr>]"
    and "doorOpenDurationTimeout (resumeUnlock 0 (Inr D) (d\<lparr>suspended := [(n, l)]\<rparr>))
         = Some (nextTimerId d)"
    and "suspended (resumeUnlock 0 (Inr D) (d\<lparr>suspended := [(n, l)]\<rparr>)) = []"
  using assms
  by (simp_all add: resumeUnlock_def setTimeout_def Let_def pendingAutoLocks_def)

text \<open>
  What the Unlock branch does when nothing interleaves. From a state with no handler call
  suspended and every pending auto-lock timer under the stored handle, an Unlock for a
  provisioned lock whose duration lookup settles with \<open>D\<close> before the next event leaves
  exactly one auto-lock timer pending, for that lock, at \<open>D * 1000\<close> ms, under the newly
  stored handle; the state is again of that kind.
\<close>

lemma unlock_then_duration:
  assumes lock: "locks d (nativeId d @ ''-lock-'' @ doorNo') = Some lock"
    and idle: "suspended d = []"
    and tracked: "\<forall>t \<in> set (pendingAutoLocks d). doorOpenDurationTimeout d = Some (timerId t)"
  shows "pendingAutoLocks (resumeUnlock 0 (Inr D) (onEvent Unlock doorNo' d))
         = [\<lparr>timerId = nextTimerId d, action = AutoLock (nativeId d @ ''-lock-'' @ doorNo'),
             delay = map_option (\<lambda>n. n * 1000) D\<rparr>]"
    and "doorOpenDurationTimeout (resumeUnlock 0 (Inr D) (onEvent Unlock doorNo' d))
         = Some (nextTimerId d)"
    and "suspended (resumeUnlock 0 (Inr D) (onEvent Unlock doorNo' d)) = []"
proof -
  define l where "l = nativeId d @ ''-lock-'' @ doorNo'"
  define d2 where "d2 = clearTimeout (doorOpenDurationTimeout d)
                          (d\<lparr>locks := (locks d)(l \<mapsto> lock\<lparr>lockState := Unlocked\<rparr>)\<rparr>)"
  have "\<forall>t \<in> set (pendingAutoLocks (d\<lparr>locks := (locks d)(l \<mapsto> lock\<lparr>lockState := Unlocked\<rparr>)\<rparr>)).
          doorOpenDurationTimeout d = Some (timerId t)"
    using tracked by (simp add: pendingAutoLocks_def)
  then have cleared: "pendingAutoLocks d2 = []"
    unfolding d2_def by (rule pendingAutoLocks_clear)
  have nid: "nextTimerId d2 = nextTimerId d"
    unfolding d2_def by (simp add: clearTimeout_keeps)
  have ev: "onEvent Unlock doorNo' d = d2\<lparr>suspended := [(doorNo', l)]\<rparr>"
    unfolding d2_def l_def using onEvent_Unlock [OF lock] idle by simp
  show "pendingAutoLocks (resumeUnlock 0 (Inr D) (onEvent Unlock doorNo' d))
         = [\<lparr>timerId = nextTimerId d, action = AutoLock (nativeId d @ ''-lock-'' @ doorNo'),
             delay = map_option (\<lambda>n. n * 1000) D\<rparr>]"
    unfolding ev resumeUnlock_single(1) [OF cleared] nid l_def ..
  show "doorOpenDurationTimeout (resumeUnlock 0 (Inr D) (onEvent Unlock doorNo' d))
         = Some (nextTimerId d)"
    unfolding ev resumeUnlock_single(2) [OF cleared] nid ..
  show "suspended (resumeUnlock 0 (Inr D) (onEvent Unlock doorNo' d)) = []"
    unfolding ev by (rule resumeUnlock_single(3) [OF cleared])
qed

text \<open>When an auto-lock timer fires, its lock is set to Locked, whatever its state was.\<close>

lemma fire_AutoLock:
  assumes "find (\<lambda>t. timerId t = i) (timers d) = Some t"
    and "action t = AutoLock l"
    and "locks d l = Some lock"
  shows "locks (fire i d) l = Some (lock\<lparr>lockState := Locked\<rparr>)"
  using assms by (simp add: fire_def Let_def)

text \<open>
  DoorOpened and DoorClosed assign the \<^verbatim>\<open>binaryState\<close> of the door's entry sensor and
  nothing else; without a provisioned sensor they change nothing.
\<close>

lemma onEvent_door_sensor:
  assumes "event = DoorOpened \<or> event = DoorClosed"
  shows "onEvent event doorNo' d
         = (case entrySensors d (nativeId d @ ''-entry-'' @ doorNo') of
              None \<Rightarrow> d
            | Some entrySensor \<Rightarrow>
                d\<lparr>entrySensors := (entrySensors d)(nativeId d @ ''-entry-'' @ doorNo' \<mapsto>
                     entrySensor\<lparr>sensorBinaryState := Some (event = DoorOpened)\<rparr>)\<rparr>)"
  using assms by (auto simp: onEvent_def Let_def split: option.splits)

end
